theory Spec2Isabelle
  imports Complex_Main
begin

section \<open>The ShopEase schema (SHOPEASE.sql)\<close>

text \<open>
  Every table of the schema is a list of rows. A column is optional (\<open>None\<close> is SQL NULL)
  unless it is the table's SERIAL primary key. A text is the list of its characters, a
  TIMESTAMP a number of ticks. A NUMERIC value is a decimal number or the special value
  NaN, which a NUMERIC(10, 2) column can hold.

  The order of a list stands for the order in which a SELECT without ORDER BY returns the
  rows. PostgreSQL does not fix that order; here an INSERT appends and an UPDATE keeps the
  row where it is.
\<close>

datatype numeric = Decimal rat | NaN

record customer =
  customer_id :: int
  first_name :: "string option"
  last_name :: "string option"
  email :: "string option"
  phone_number :: "string option"
  address :: "string option"

record product =
  product_id :: int
  product_name :: "string option"
  price :: "numeric option"
  category :: "string option"
  description :: "string option"
  stock_quantity :: "int option"

record order_row =
  order_id :: int
  order_customer_id :: "int option"
  order_product_id :: "int option"
  order_quantity :: "int option"
  total_amount :: "numeric option"
  order_status :: "string option"
  order_timestamp :: "nat option"

record order_item =
  order_item_id :: int
  item_order_id :: "int option"
  item_product_id :: "int option"
  item_quantity :: "int option"
  unit_price :: "numeric option"

record payment =
  payment_id :: int
  payment_customer_id :: "int option"
  amount :: "numeric option"
  payment_method :: "string option"
  payment_timestamp :: "nat option"

record sale =
  sale_id :: int
  sale_customer_id :: "int option"
  sale_product_id :: "int option"
  quantity :: "int option"
  sale_timestamp :: "nat option"

text \<open>
  The database behind \<open>pool\<close>: the six tables and the two sequences that the SERIAL keys
  of \<open>products\<close> and \<open>sales\<close> draw from. A sequence field holds the value that the next
  \<open>nextval\<close> returns.
\<close>

record db =
  customers :: "customer list"
  products :: "product list"
  orders :: "order_row list"
  order_items :: "order_item list"
  payments :: "payment list"
  sales :: "sale list"
  products_product_id_seq :: int
  sales_sale_id_seq :: int

definition empty_db :: db where
  "empty_db = \<lparr>customers = [], products = [], orders = [], order_items = [],
     payments = [], sales = [], products_product_id_seq = 1, sales_sale_id_seq = 1\<rparr>"

section \<open>Query parameters and column types\<close>

text \<open>
  \<open>pool.query\<close> sends every parameter as text and PostgreSQL reads it at the type of the
  column it is compared with or assigned to. For an INTEGER or NUMERIC column a parameter
  is \<open>Null\<close> (the JavaScript value is \<open>undefined\<close> or \<open>null\<close>), \<open>Value v\<close> (the text reads as
  the number \<open>v\<close>, of any size), or \<open>Malformed\<close> (the text does not read as a number of
  that type: \<open>abc\<close>, \<open>true\<close>, \<open>2.5\<close> for an INTEGER, an infinite NUMERIC). For a VARCHAR
  column a parameter is NULL or the text itself.

  A statement with a parameter that its column cannot take fails before it runs: the
  database, sequences included, is as before.
\<close>

datatype 'a param = Null | Value 'a | Malformed

datatype query_error =
  DataException | SequenceExhausted | UniqueViolation | ForeignKeyViolation

text \<open>The value that a parameter binds: NULL unless the text reads as a value.\<close>

definition bound :: "'a param \<Rightarrow> 'a option" where
  "bound v = (case v of Null \<Rightarrow> None | Value x \<Rightarrow> Some x | Malformed \<Rightarrow> None)"

text \<open>INTEGER: four bytes, from \<open>-2147483648\<close> to \<open>2147483647\<close>.\<close>

definition int4_ok :: "int param \<Rightarrow> bool" where
  "int4_ok v =
     (case v of Null \<Rightarrow> True
      | Value n \<Rightarrow> - 2147483648 \<le> n \<and> n \<le> 2147483647
      | Malformed \<Rightarrow> False)"

text \<open>
  NUMERIC(10, 2): a number is rounded to two decimal places, half away from zero, and
  the rounded number has to be below \<open>10^8\<close> in absolute value. NaN is stored as it is.
\<close>

definition round_2 :: "rat \<Rightarrow> rat" where
  "round_2 r =
     (if 0 \<le> r then of_int \<lfloor>r * 100 + 1 / 2\<rfloor> / 100
      else - (of_int \<lfloor>- r * 100 + 1 / 2\<rfloor> / 100))"

definition numeric_ok :: "numeric param \<Rightarrow> bool" where
  "numeric_ok v =
     (case v of Null \<Rightarrow> True
      | Value x \<Rightarrow> (case x of Decimal r \<Rightarrow> \<bar>round_2 r\<bar> < 100000000 | NaN \<Rightarrow> True)
      | Malformed \<Rightarrow> False)"

definition numeric_10_2 :: "numeric param \<Rightarrow> numeric option" where
  "numeric_10_2 v =
     (case v of Null \<Rightarrow> None
      | Value x \<Rightarrow> (case x of Decimal r \<Rightarrow> Some (Decimal (round_2 r)) | NaN \<Rightarrow> Some NaN)
      | Malformed \<Rightarrow> None)"

text \<open>
  VARCHAR(n): a text must not contain the character with code zero; characters beyond
  the first \<open>n\<close> are cut off when all of them are spaces and are an error otherwise.
\<close>

definition varchar_ok :: "nat \<Rightarrow> string option \<Rightarrow> bool" where
  "varchar_ok n v =
     (case v of None \<Rightarrow> True
      | Some t \<Rightarrow> CHR 0x00 \<notin> set t \<and> list_all (\<lambda>c. c = CHR '' '') (drop n t))"

definition varchar :: "nat \<Rightarrow> string option \<Rightarrow> string option" where
  "varchar n v = (case v of None \<Rightarrow> None | Some t \<Rightarrow> Some (take n t))"

text \<open>A SERIAL sequence runs from 1 to \<open>2147483647\<close>; beyond that \<open>nextval\<close> fails.\<close>

definition nextval_ok :: "int \<Rightarrow> bool" where
  "nextval_ok i = (1 \<le> i \<and> i \<le> 2147483647)"

section \<open>The statements sent through \<open>pool.query\<close>\<close>

text \<open>
  A foreign key column accepts NULL; any other value has to be a key of the referenced
  table (\<open>REFERENCES customers(customer_id)\<close>, \<open>REFERENCES products(product_id)\<close>).
\<close>

definition customer_ref_ok :: "db \<Rightarrow> int option \<Rightarrow> bool" where
  "customer_ref_ok s c =
     (case c of None \<Rightarrow> True | Some i \<Rightarrow> i \<in> set (map customer_id (customers s)))"

definition product_ref_ok :: "db \<Rightarrow> int option \<Rightarrow> bool" where
  "product_ref_ok s p =
     (case p of None \<Rightarrow> True | Some i \<Rightarrow> i \<in> set (map product_id (products s)))"

text \<open>Some row of \<open>sales\<close>, \<open>orders\<close> or \<open>order_items\<close> references the product.\<close>

definition product_referenced :: "db \<Rightarrow> int \<Rightarrow> bool" where
  "product_referenced s i =
     (Some i \<in> set (map sale_product_id (sales s)) \<or>
      Some i \<in> set (map order_product_id (orders s)) \<or>
      Some i \<in> set (map item_product_id (order_items s)))"

text \<open>\<open>WHERE product_id = $n\<close> and \<open>WHERE sale_id = $n\<close>: no row equals NULL.\<close>

definition product_is :: "int param \<Rightarrow> product \<Rightarrow> bool" where
  "product_is i p = (bound i = Some (product_id p))"

definition sale_is :: "int param \<Rightarrow> sale \<Rightarrow> bool" where
  "sale_is i r = (bound i = Some (sale_id r))"

text \<open>\<^verbatim>\<open>SELECT * FROM products\<close> and \<^verbatim>\<open>SELECT * FROM products WHERE product_id = $1\<close>.\<close>

definition select_products :: "db \<Rightarrow> query_error + product list" where
  "select_products s = Inr (products s)"

definition select_product :: "db \<Rightarrow> int param \<Rightarrow> query_error + product list" where
  "select_product s i =
     (if \<not> int4_ok i then Inl DataException
      else Inr (filter (product_is i) (products s)))"

text \<open>
  \<^verbatim>\<open>INSERT INTO products (product_name, price, category) VALUES ($1, $2, $3) RETURNING *\<close>.
  The key is drawn from the sequence, which stays advanced when the key is already in
  use; the columns that the statement does not name have no default and are NULL.
\<close>

definition insert_product ::
  "db \<Rightarrow> string option \<Rightarrow> numeric param \<Rightarrow> string option \<Rightarrow> db \<times> (query_error + product list)" where
  "insert_product s n pr c =
     (if \<not> (varchar_ok 100 n \<and> numeric_ok pr \<and> varchar_ok 50 c) then (s, Inl DataException)
      else if \<not> nextval_ok (products_product_id_seq s) then (s, Inl SequenceExhausted)
      else
        let i = products_product_id_seq s;
            s1 = s\<lparr>products_product_id_seq := i + 1\<rparr>;
            row = \<lparr>product_id = i, product_name = varchar 100 n, price = numeric_10_2 pr,
                   category = varchar 50 c, description = None, stock_quantity = None\<rparr>
        in if i \<in> set (map product_id (products s)) then (s1, Inl UniqueViolation)
           else (s1\<lparr>products := products s @ [row]\<rparr>, Inr [row]))"

text \<open>
  \<^verbatim>\<open>UPDATE products SET product_name = $1, price = $2, category = $3 WHERE product_id = $4 RETURNING *\<close>.
\<close>

definition set_product ::
  "string option \<Rightarrow> numeric param \<Rightarrow> string option \<Rightarrow> product \<Rightarrow> product" where
  "set_product n pr c p =
     p\<lparr>product_name := varchar 100 n, price := numeric_10_2 pr, category := varchar 50 c\<rparr>"

definition update_product ::
  "db \<Rightarrow> string option \<Rightarrow> numeric param \<Rightarrow> string option \<Rightarrow> int param \<Rightarrow>
   db \<times> (query_error + product list)" where
  "update_product s n pr c i =
     (if \<not> (varchar_ok 100 n \<and> numeric_ok pr \<and> varchar_ok 50 c \<and> int4_ok i)
      then (s, Inl DataException)
      else
        (s\<lparr>products := map (\<lambda>p. if product_is i p then set_product n pr c p else p) (products s)\<rparr>,
         Inr (map (set_product n pr c) (filter (product_is i) (products s)))))"

text \<open>
  \<^verbatim>\<open>DELETE FROM products WHERE product_id = $1\<close>; the result is the row count. The
  references of \<open>sales\<close>, \<open>orders\<close> and \<open>order_items\<close> to \<open>products\<close> have no ON DELETE
  action, so deleting a row that is still referenced is refused.
\<close>

definition delete_product :: "db \<Rightarrow> int param \<Rightarrow> db \<times> (query_error + nat)" where
  "delete_product s i =
     (if \<not> int4_ok i then (s, Inl DataException)
      else
        let hit = filter (product_is i) (products s)
        in if list_ex (\<lambda>p. product_referenced s (product_id p)) hit
           then (s, Inl ForeignKeyViolation)
           else (s\<lparr>products := filter (\<lambda>p. \<not> product_is i p) (products s)\<rparr>,
                 Inr (length hit)))"

text \<open>\<^verbatim>\<open>SELECT * FROM sales\<close> and \<^verbatim>\<open>SELECT * FROM sales WHERE sale_id = $1\<close>.\<close>

definition select_sales :: "db \<Rightarrow> query_error + sale list" where
  "select_sales s = Inr (sales s)"

definition select_sale :: "db \<Rightarrow> int param \<Rightarrow> query_error + sale list" where
  "select_sale s i =
     (if \<not> int4_ok i then Inl DataException
      else Inr (filter (sale_is i) (sales s)))"

text \<open>
  \<^verbatim>\<open>INSERT INTO sales (customer_id, product_id, quantity) VALUES ($1, $2, $3) RETURNING *\<close>.
  The \<open>timestamp\<close> column is not named and has no default. The foreign keys are checked
  after the key has been drawn.
\<close>

definition insert_sale ::
  "db \<Rightarrow> int param \<Rightarrow> int param \<Rightarrow> int param \<Rightarrow> db \<times> (query_error + sale list)" where
  "insert_sale s c p q =
     (if \<not> (int4_ok c \<and> int4_ok p \<and> int4_ok q) then (s, Inl DataException)
      else if \<not> nextval_ok (sales_sale_id_seq s) then (s, Inl SequenceExhausted)
      else
        let i = sales_sale_id_seq s;
            s1 = s\<lparr>sales_sale_id_seq := i + 1\<rparr>;
            row = \<lparr>sale_id = i, sale_customer_id = bound c, sale_product_id = bound p,
                   quantity = bound q, sale_timestamp = None\<rparr>
        in if i \<in> set (map sale_id (sales s)) then (s1, Inl UniqueViolation)
           else if \<not> (customer_ref_ok s (bound c) \<and> product_ref_ok s (bound p))
           then (s1, Inl ForeignKeyViolation)
           else (s1\<lparr>sales := sales s @ [row]\<rparr>, Inr [row]))"

text \<open>
  \<^verbatim>\<open>UPDATE sales SET customer_id = $1, product_id = $2, quantity = $3 WHERE sale_id = $4 RETURNING *\<close>.
  The foreign keys are checked for the rows that the statement changes.
\<close>

definition set_sale :: "int param \<Rightarrow> int param \<Rightarrow> int param \<Rightarrow> sale \<Rightarrow> sale" where
  "set_sale c p q r =
     r\<lparr>sale_customer_id := bound c, sale_product_id := bound p, quantity := bound q\<rparr>"

definition update_sale ::
  "db \<Rightarrow> int param \<Rightarrow> int param \<Rightarrow> int param \<Rightarrow> int param \<Rightarrow>
   db \<times> (query_error + sale list)" where
  "update_sale s c p q i =
     (if \<not> (int4_ok c \<and> int4_ok p \<and> int4_ok q \<and> int4_ok i) then (s, Inl DataException)
      else
        let hit = filter (sale_is i) (sales s)
        in if hit \<noteq> [] \<and> \<not> (customer_ref_ok s (bound c) \<and> product_ref_ok s (bound p))
           then (s, Inl ForeignKeyViolation)
           else (s\<lparr>sales := map (\<lambda>r. if sale_is i r then set_sale c p q r else r) (sales s)\<rparr>,
                 Inr (map (set_sale c p q) hit)))"

text \<open>\<^verbatim>\<open>DELETE FROM sales WHERE sale_id = $1\<close>; no table references \<open>sales\<close>.\<close>

definition delete_sale :: "db \<Rightarrow> int param \<Rightarrow> db \<times> (query_error + nat)" where
  "delete_sale s i =
     (if \<not> int4_ok i then (s, Inl DataException)
      else (s\<lparr>sales := filter (\<lambda>r. \<not> sale_is i r) (sales s)\<rparr>,
            Inr (length (filter (sale_is i) (sales s)))))"

section \<open>The route handlers (app.js)\<close>

text \<open>
  A response is its status code and its body. \<open>res.json\<close> answers 200 unless
  \<open>res.status\<close> was called first; \<open>rows[0]\<close> of an empty result is \<open>undefined\<close>, which is
  sent as an empty body. A query that fails throws, and the \<open>catch\<close> branch of every
  handler answers 500.
\<close>

datatype payload =
    ProductRows "product list"
  | ProductRow product
  | SaleRows "sale list"
  | SaleRow sale
  | ErrorMessage string
  | NoContent

datatype response = Response (status: nat) (payload: payload)

text \<open>
  The fields of \<open>req.body\<close>, each as the parameter it would be bound to. The handlers
  read the name, the price and the category of a product and never look at the other two
  fields.
\<close>

record product_body =
  body_product_name :: "string option"
  body_price :: "numeric param"
  body_category :: "string option"
  body_description :: "string option"
  body_stock_quantity :: "int param"

record sale_body =
  body_customer_id :: "int param"
  body_product_id :: "int param"
  body_quantity :: "int param"

definition internal_server_error :: response where
  "internal_server_error = Response 500 (ErrorMessage ''Internal server error'')"

definition first_product :: "product list \<Rightarrow> payload" where
  "first_product rows = (case rows of [] \<Rightarrow> NoContent | r # _ \<Rightarrow> ProductRow r)"

definition first_sale :: "sale list \<Rightarrow> payload" where
  "first_sale rows = (case rows of [] \<Rightarrow> NoContent | r # _ \<Rightarrow> SaleRow r)"

text \<open>\<^verbatim>\<open>app.get('/products')\<close>\<close>

definition get_products :: "db \<Rightarrow> db \<times> response" where
  "get_products s =
     (case select_products s of
        Inr rows \<Rightarrow> (s, Response 200 (ProductRows rows))
      | Inl err \<Rightarrow> (s, internal_server_error))"

text \<open>\<^verbatim>\<open>app.get('/products/:product_id')\<close>\<close>

definition get_product :: "db \<Rightarrow> int param \<Rightarrow> db \<times> response" where
  "get_product s i =
     (case select_product s i of
        Inr rows \<Rightarrow>
          if length rows = 0 then (s, Response 404 (ErrorMessage ''Product not found''))
          else (s, Response 200 (first_product rows))
      | Inl err \<Rightarrow> (s, internal_server_error))"

text \<open>\<^verbatim>\<open>app.post('/products')\<close>\<close>

definition post_products :: "db \<Rightarrow> product_body \<Rightarrow> db \<times> response" where
  "post_products s b =
     (case insert_product s (body_product_name b) (body_price b) (body_category b) of
        (s', Inr rows) \<Rightarrow> (s', Response 201 (first_product rows))
      | (s', Inl err) \<Rightarrow> (s', internal_server_error))"

text \<open>\<^verbatim>\<open>app.put('/products/:product_id')\<close>\<close>

definition put_product :: "db \<Rightarrow> int param \<Rightarrow> product_body \<Rightarrow> db \<times> response" where
  "put_product s i b =
     (case update_product s (body_product_name b) (body_price b) (body_category b) i of
        (s', Inr rows) \<Rightarrow>
          if length rows = 0 then (s', Response 404 (ErrorMessage ''Product not found''))
          else (s', Response 200 (first_product rows))
      | (s', Inl err) \<Rightarrow> (s', internal_server_error))"

text \<open>\<^verbatim>\<open>app.delete('/products/:product_id')\<close>\<close>

definition delete_product_route :: "db \<Rightarrow> int param \<Rightarrow> db \<times> response" where
  "delete_product_route s i =
     (case delete_product s i of
        (s', Inr rowCount) \<Rightarrow>
          if rowCount = 0 then (s', Response 404 (ErrorMessage ''Product not found''))
          else (s', Response 204 NoContent)
      | (s', Inl err) \<Rightarrow> (s', internal_server_error))"

text \<open>\<^verbatim>\<open>app.get('/sales')\<close>\<close>

definition get_sales :: "db \<Rightarrow> db \<times> response" where
  "get_sales s =
     (case select_sales s of
        Inr rows \<Rightarrow> (s, Response 200 (SaleRows rows))
      | Inl err \<Rightarrow> (s, internal_server_error))"

text \<open>\<^verbatim>\<open>app.get('/sales/:sale_id')\<close>\<close>

definition get_sale :: "db \<Rightarrow> int param \<Rightarrow> db \<times> response" where
  "get_sale s i =
     (case select_sale s i of
        Inr rows \<Rightarrow>
          if length rows = 0 then (s, Response 404 (ErrorMessage ''Sale not found''))
          else (s, Response 200 (first_sale rows))
      | Inl err \<Rightarrow> (s, internal_server_error))"

text \<open>\<^verbatim>\<open>app.post('/sales')\<close>\<close>

definition post_sales :: "db \<Rightarrow> sale_body \<Rightarrow> db \<times> response" where
  "post_sales s b =
     (case insert_sale s (body_customer_id b) (body_product_id b) (body_quantity b) of
        (s', Inr rows) \<Rightarrow> (s', Response 201 (first_sale rows))
      | (s', Inl err) \<Rightarrow> (s', internal_server_error))"

text \<open>\<^verbatim>\<open>app.put('/sales/:sale_id')\<close>\<close>

definition put_sale :: "db \<Rightarrow> int param \<Rightarrow> sale_body \<Rightarrow> db \<times> response" where
  "put_sale s i b =
     (case update_sale s (body_customer_id b) (body_product_id b) (body_quantity b) i of
        (s', Inr rows) \<Rightarrow>
          if length rows = 0 then (s', Response 404 (ErrorMessage ''Sale not found''))
          else (s', Response 200 (first_sale rows))
      | (s', Inl err) \<Rightarrow> (s', internal_server_error))"

text \<open>\<^verbatim>\<open>app.delete('/sales/:sale_id')\<close>\<close>

definition delete_sale_route :: "db \<Rightarrow> int param \<Rightarrow> db \<times> response" where
  "delete_sale_route s i =
     (case delete_sale s i of
        (s', Inr rowCount) \<Rightarrow>
          if rowCount = 0 then (s', Response 404 (ErrorMessage ''Sale not found''))
          else (s', Response 204 NoContent)
      | (s', Inl err) \<Rightarrow> (s', internal_server_error))"

section \<open>Requests and sequences of requests\<close>

datatype request =
    ListProducts
  | GetProduct "int param"
  | CreateProduct product_body
  | UpdateProduct "int param" product_body
  | DeleteProduct "int param"
  | ListSales
  | GetSale "int param"
  | CreateSale sale_body
  | UpdateSale "int param" sale_body
  | DeleteSale "int param"

fun handle :: "db \<Rightarrow> request \<Rightarrow> db \<times> response" where
  "handle s ListProducts = get_products s"
| "handle s (GetProduct i) = get_product s i"
| "handle s (CreateProduct b) = post_products s b"
| "handle s (UpdateProduct i b) = put_product s i b"
| "handle s (DeleteProduct i) = delete_product_route s i"
| "handle s ListSales = get_sales s"
| "handle s (GetSale i) = get_sale s i"
| "handle s (CreateSale b) = post_sales s b"
| "handle s (UpdateSale i b) = put_sale s i b"
| "handle s (DeleteSale i) = delete_sale_route s i"

text \<open>
  Every handler awaits one statement, and the database runs a statement as a whole, so
  requests that are served concurrently take effect in some order, one statement after
  the other: an execution is a list of requests in the order of their statements.
\<close>

fun run :: "db \<Rightarrow> request list \<Rightarrow> db \<times> response list" where
  "run s [] = (s, [])"
| "run s (r # rs) =
     (case handle s r of (s1, a) \<Rightarrow> (case run s1 rs of (s2, as) \<Rightarrow> (s2, a # as)))"

section \<open>Properties of the store\<close>

text \<open>
  The \<open>stock_quantity\<close> values stored under a product key: the empty list when no product
  has the key, one value when the key is in use.
\<close>

definition stock_of :: "db \<Rightarrow> int \<Rightarrow> int option list" where
  "stock_of s i = map stock_quantity (filter (\<lambda>p. product_id p = i) (products s))"

text \<open>A stock that is NULL or at least zero.\<close>

definition stock_not_negative :: "product \<Rightarrow> bool" where
  "stock_not_negative p = (case stock_quantity p of None \<Rightarrow> True | Some n \<Rightarrow> 0 \<le> n)"

definition stock_is_null :: "product \<Rightarrow> bool" where
  "stock_is_null p = (stock_quantity p = None)"

text \<open>Every sale references a stored product and a stored customer, or NULL.\<close>

definition sale_refs_ok :: "db \<Rightarrow> sale \<Rightarrow> bool" where
  "sale_refs_ok s r =
     (customer_ref_ok s (sale_customer_id r) \<and> product_ref_ok s (sale_product_id r))"

definition sales_refs_ok :: "db \<Rightarrow> bool" where
  "sales_refs_ok s = list_all (sale_refs_ok s) (sales s)"

text \<open>The sequence of \<open>sales\<close> is ahead of every key in the table.\<close>

definition sale_keys_below_seq :: "db \<Rightarrow> bool" where
  "sale_keys_below_seq s = list_all (\<lambda>r. sale_id r < sales_sale_id_seq s) (sales s)"

text \<open>The three parameters of a sale are INTEGER values or NULL.\<close>

definition sale_params_ok :: "sale_body \<Rightarrow> bool" where
  "sale_params_ok b =
     (int4_ok (body_customer_id b) \<and> int4_ok (body_product_id b) \<and> int4_ok (body_quantity b))"

text \<open>
  The name, the price and the category of a product fit VARCHAR(100), NUMERIC(10, 2)
  and VARCHAR(50).
\<close>

definition product_params_ok :: "product_body \<Rightarrow> bool" where
  "product_params_ok b =
     (varchar_ok 100 (body_product_name b) \<and> numeric_ok (body_price b) \<and>
      varchar_ok 50 (body_category b))"

text \<open>
  The INSERT of a sale goes through: the parameters are INTEGER values, the sequence
  gives a key that no sale has, and the customer and the product are stored (or NULL).
\<close>

definition sale_accepted :: "db \<Rightarrow> sale_body \<Rightarrow> bool" where
  "sale_accepted s b =
     (sale_params_ok b \<and> nextval_ok (sales_sale_id_seq s) \<and>
      sales_sale_id_seq s \<notin> set (map sale_id (sales s)) \<and>
      customer_ref_ok s (bound (body_customer_id b)) \<and>
      product_ref_ok s (bound (body_product_id b)))"

text \<open>
  The INSERT of a product goes through: the parameters fit their columns and the sequence
  gives a key that no product has.
\<close>

definition product_accepted :: "db \<Rightarrow> product_body \<Rightarrow> bool" where
  "product_accepted s b =
     (product_params_ok b \<and> nextval_ok (products_product_id_seq s) \<and>
      products_product_id_seq s \<notin> set (map product_id (products s)))"

text \<open>
  A \<open>POST /sales\<close> request with INTEGER parameters whose customer and product are stored
  (or NULL).
\<close>

fun create_sale_with_refs :: "db \<Rightarrow> request \<Rightarrow> bool" where
  "create_sale_with_refs s (CreateSale b) =
     (sale_params_ok b \<and> customer_ref_ok s (bound (body_customer_id b)) \<and>
      product_ref_ok s (bound (body_product_id b)))"
| "create_sale_with_refs s _ = False"

fun is_create_sale :: "request \<Rightarrow> bool" where
  "is_create_sale (CreateSale b) = True"
| "is_create_sale _ = False"

text \<open>The row that \<open>POST /sales\<close> inserts and the row that \<open>POST /products\<close> inserts.\<close>

definition new_sale :: "db \<Rightarrow> sale_body \<Rightarrow> sale" where
  "new_sale s b =
     \<lparr>sale_id = sales_sale_id_seq s, sale_customer_id = bound (body_customer_id b),
      sale_product_id = bound (body_product_id b), quantity = bound (body_quantity b),
      sale_timestamp = None\<rparr>"

definition new_product :: "db \<Rightarrow> product_body \<Rightarrow> product" where
  "new_product s b =
     \<lparr>product_id = products_product_id_seq s,
      product_name = varchar 100 (body_product_name b),
      price = numeric_10_2 (body_price b),
      category = varchar 50 (body_category b), description = None,
      stock_quantity = None\<rparr>"

text \<open>The database differs from another one at most in the two sequences.\<close>

definition same_tables :: "db \<Rightarrow> db \<Rightarrow> bool" where
  "same_tables s' s =
     (s' = s\<lparr>products_product_id_seq := products_product_id_seq s',
             sales_sale_id_seq := sales_sale_id_seq s'\<rparr>)"

section \<open>Example data\<close>

definition laptop :: product_body where
  "laptop = \<lparr>body_product_name = Some ''Laptop'', body_price = Value (Decimal 1200),
     body_category = Some ''Electronics'', body_description = None,
     body_stock_quantity = Value 5\<rparr>"

definition nameless :: product_body where
  "nameless = \<lparr>body_product_name = None, body_price = Value (Decimal (- 5)),
     body_category = Some [], body_description = None, body_stock_quantity = Value (- 3)\<rparr>"

definition widget_repriced :: product_body where
  "widget_repriced = \<lparr>body_product_name = Some ''Widget'',
     body_price = Value (Decimal (19999 / 1000)), body_category = Some ''Tools'',
     body_description = None, body_stock_quantity = Null\<rparr>"

definition alice :: customer where
  "alice = \<lparr>customer_id = 1, first_name = Some ''Alice'', last_name = None, email = None,
     phone_number = None, address = None\<rparr>"

definition widget :: product where
  "widget = \<lparr>product_id = 1, product_name = Some ''Widget'', price = Some (Decimal 3),
     category = Some ''Tools'', description = None, stock_quantity = Some 10\<rparr>"

text \<open>A store with one customer and one product that has ten pieces in stock.\<close>

definition shop :: db where
  "shop = \<lparr>customers = [alice], products = [widget], orders = [], order_items = [],
     payments = [], sales = [], products_product_id_seq = 2, sales_sale_id_seq = 1\<rparr>"

text \<open>The same store with the sequence of \<open>products\<close> behind the key that is in use.\<close>

definition stale_shop :: db where
  "stale_shop = shop\<lparr>products_product_id_seq := 1\<rparr>"

definition six_widgets :: sale_body where
  "six_widgets =
     \<lparr>body_customer_id = Value 1, body_product_id = Value 1, body_quantity = Value 6\<rparr>"

definition twelve_widgets :: sale_body where
  "twelve_widgets =
     \<lparr>body_customer_id = Value 1, body_product_id = Value 1, body_quantity = Value 12\<rparr>"

definition too_many_widgets :: sale_body where
  "too_many_widgets =
     \<lparr>body_customer_id = Value 1, body_product_id = Value 1,
      body_quantity = Value 2147483648\<rparr>"

definition unknown_product :: sale_body where
  "unknown_product =
     \<lparr>body_customer_id = Value 1, body_product_id = Value 99, body_quantity = Value 1\<rparr>"

definition unknown_customer :: sale_body where
  "unknown_customer =
     \<lparr>body_customer_id = Value 42, body_product_id = Value 1, body_quantity = Value 1\<rparr>"

section \<open>Parameters and keys\<close>

lemma bound_Value [simp]: "bound (Value x) = Some x"
  by (simp add: bound_def)

lemma bound_Some_iff: "bound v = Some x \<longleftrightarrow> v = Value x"
  by (cases v) (simp_all add: bound_def)

lemma same_tables_refl: "same_tables s s"
  by (simp add: same_tables_def)

lemma same_tables_sales_seq: "same_tables (s\<lparr>sales_sale_id_seq := n\<rparr>) s"
  by (simp add: same_tables_def)

lemma same_tables_products_seq: "same_tables (s\<lparr>products_product_id_seq := n\<rparr>) s"
  by (simp add: same_tables_def)

lemma filter_none: "list_all (\<lambda>p. \<not> P p) xs \<Longrightarrow> filter P xs = []"
  by (induction xs) auto

lemma filter_none_iff: "filter P xs = [] \<longleftrightarrow> list_all (\<lambda>p. \<not> P p) xs"
  by (induction xs) auto

lemma filter_all: "list_all (\<lambda>p. \<not> P p) xs \<Longrightarrow> filter (\<lambda>p. \<not> P p) xs = xs"
  by (induction xs) auto

lemma map_none: "list_all (\<lambda>p. \<not> P p) xs \<Longrightarrow> map (\<lambda>p. if P p then f p else p) xs = xs"
  by (induction xs) auto

lemma no_product_is:
  "k \<notin> set (map product_id (products s)) \<Longrightarrow>
   list_all (\<lambda>p. \<not> product_is (Value k) p) (products s)"
  by (auto simp: list_all_iff product_is_def)

lemma no_sale_is:
  "k \<notin> set (map sale_id (sales s)) \<Longrightarrow> list_all (\<lambda>r. \<not> sale_is (Value k) r) (sales s)"
  by (auto simp: list_all_iff sale_is_def)

section \<open>Creating a sale\<close>

lemma post_sales_accepted:
  assumes "sale_accepted s b"
  shows "post_sales s b =
    (s\<lparr>sales_sale_id_seq := sales_sale_id_seq s + 1, sales := sales s @ [new_sale s b]\<rparr>,
     Response 201 (SaleRow (new_sale s b)))"
  using assms
  by (simp add: sale_accepted_def sale_params_ok_def post_sales_def insert_sale_def Let_def
      new_sale_def first_sale_def)

lemma post_sales_refused:
  assumes "\<not> sale_accepted s b"
  shows "snd (post_sales s b) = internal_server_error"
    and "fst (post_sales s b) = s \<or>
      fst (post_sales s b) = s\<lparr>sales_sale_id_seq := sales_sale_id_seq s + 1\<rparr>"
    and "sale_params_ok b \<Longrightarrow> nextval_ok (sales_sale_id_seq s) \<Longrightarrow>
      fst (post_sales s b) = s\<lparr>sales_sale_id_seq := sales_sale_id_seq s + 1\<rparr>"
  using assms
  by (auto simp: sale_accepted_def sale_params_ok_def post_sales_def insert_sale_def Let_def)

lemma post_sales_same_tables:
  "\<not> sale_accepted s b \<Longrightarrow> same_tables (fst (post_sales s b)) s"
  using post_sales_refused(2) [of s b]
  by (auto simp: same_tables_refl same_tables_sales_seq)

lemma post_sales_products: "products (fst (post_sales s b)) = products s"
  by (simp add: post_sales_def insert_sale_def Let_def)

lemma post_sales_customers: "customers (fst (post_sales s b)) = customers s"
  by (simp add: post_sales_def insert_sale_def Let_def)

lemma post_sales_status:
  "status (snd (post_sales s b)) = 201 \<or> status (snd (post_sales s b)) = 500"
  by (simp add: post_sales_def insert_sale_def Let_def internal_server_error_def)

lemma post_sales_201:
  assumes "status (snd (post_sales s b)) = 201"
  shows "sale_accepted s b"
proof (rule ccontr)
  assume "\<not> sale_accepted s b"
  then have "snd (post_sales s b) = internal_server_error"
    by (rule post_sales_refused)
  with assms show False by (simp add: internal_server_error_def)
qed

text \<open>
  Claim C1, as the code has it. \<open>POST /sales\<close> is one INSERT: it never reads or writes
  \<open>stock_quantity\<close> and never answers 409 Conflict. When the customer, the product and
  the quantity of the request are INTEGER values or NULL, the customer and the product
  are stored and the sequence gives a key that is free, it appends exactly one row to
  \<open>sales\<close> and answers 201 with that row, whatever the quantity is within INTEGER: zero,
  negative or above the stock. In every other case it answers 500 and no table has
  changed. In both cases the \<open>products\<close> table is as before.
\<close>

theorem create_sale_inserts_and_keeps_stock:
  "products (fst (post_sales s b)) = products s \<and>
   status (snd (post_sales s b)) \<noteq> 409 \<and>
   (sales (fst (post_sales s b)) = sales s \<or>
    sales (fst (post_sales s b)) = sales s @ [new_sale s b]) \<and>
   (sale_accepted s b \<longrightarrow>
      post_sales s b =
        (s\<lparr>sales_sale_id_seq := sales_sale_id_seq s + 1, sales := sales s @ [new_sale s b]\<rparr>,
         Response 201 (SaleRow (new_sale s b)))) \<and>
   (\<not> sale_accepted s b \<longrightarrow>
      snd (post_sales s b) = internal_server_error \<and> same_tables (fst (post_sales s b)) s)"
proof -
  have "sales (fst (post_sales s b)) = sales s \<or>
        sales (fst (post_sales s b)) = sales s @ [new_sale s b]"
    by (simp add: post_sales_def insert_sale_def Let_def new_sale_def)
  moreover have "status (snd (post_sales s b)) \<noteq> 409"
    using post_sales_status [of s b] by auto
  ultimately show ?thesis
    using post_sales_accepted [of s b] post_sales_refused(1) [of s b]
      post_sales_same_tables [of s b]
    by (simp add: post_sales_products)
qed

theorem create_sale_inserts_and_keeps_stock_witness:
  "sale_accepted shop twelve_widgets \<and>
   post_sales shop twelve_widgets =
     (shop\<lparr>sales_sale_id_seq := sales_sale_id_seq shop + 1,
        sales := sales shop @ [new_sale shop twelve_widgets]\<rparr>,
      Response 201 (SaleRow (new_sale shop twelve_widgets))) \<and>
   \<not> sale_accepted shop too_many_widgets \<and>
   snd (post_sales shop too_many_widgets) = internal_server_error \<and>
   same_tables (fst (post_sales shop too_many_widgets)) shop \<and>
   \<not> sale_accepted shop unknown_product \<and>
   snd (post_sales shop unknown_product) = internal_server_error \<and>
   same_tables (fst (post_sales shop unknown_product)) shop"
proof -
  have "sale_accepted shop twelve_widgets"
    and "\<not> sale_accepted shop too_many_widgets"
    and "\<not> sale_accepted shop unknown_product"
    by (simp_all add: sale_accepted_def sale_params_ok_def int4_ok_def nextval_ok_def
        customer_ref_ok_def product_ref_ok_def shop_def twelve_widgets_def
        too_many_widgets_def unknown_product_def alice_def widget_def)
  then show ?thesis
    using create_sale_inserts_and_keeps_stock [of shop twelve_widgets]
      create_sale_inserts_and_keeps_stock [of shop too_many_widgets]
      create_sale_inserts_and_keeps_stock [of shop unknown_product]
    by blast
qed

text \<open>
  Against C1 as it is written: with ten pieces in stock a sale of twelve is answered 201
  and stored, not refused with Conflict, and a sale of six leaves the stock at ten.
\<close>

theorem create_sale_ignores_stock_counterexample:
  "stock_of shop 1 = [Some 10] \<and> body_quantity twelve_widgets = Value 12 \<and>
   status (snd (post_sales shop twelve_widgets)) = 201 \<and>
   length (sales (fst (post_sales shop twelve_widgets))) = 1 \<and>
   stock_of (fst (post_sales shop twelve_widgets)) 1 = [Some 10] \<and>
   status (snd (post_sales shop six_widgets)) = 201 \<and>
   stock_of (fst (post_sales shop six_widgets)) 1 = [Some 10]"
  by code_simp

section \<open>A sale of an unknown product or customer\<close>

text \<open>
  Claim C5, as the code has it. A \<open>POST /sales\<close> whose product is not stored, or whose
  customer is not stored, is answered 500 (Internal server error) and no row of any table
  changes. The sequence of \<open>sales\<close> is as before or has advanced by one; it has advanced
  by one, the INSERT being refused by the foreign key, when the three parameters are
  INTEGER values and the sequence is not exhausted.
\<close>

theorem create_sale_with_unknown_reference:
  assumes "(body_product_id b = Value p \<and> p \<notin> set (map product_id (products s))) \<or>
    (body_customer_id b = Value c \<and> c \<notin> set (map customer_id (customers s)))"
  shows "snd (post_sales s b) = internal_server_error \<and>
    status (snd (post_sales s b)) = 500 \<and>
    same_tables (fst (post_sales s b)) s \<and>
    (fst (post_sales s b) = s \<or>
     fst (post_sales s b) = s\<lparr>sales_sale_id_seq := sales_sale_id_seq s + 1\<rparr>) \<and>
    (sale_params_ok b \<and> nextval_ok (sales_sale_id_seq s) \<longrightarrow>
       post_sales s b =
         (s\<lparr>sales_sale_id_seq := sales_sale_id_seq s + 1\<rparr>, internal_server_error))"
proof -
  from assms have "\<not> customer_ref_ok s (bound (body_customer_id b)) \<or>
      \<not> product_ref_ok s (bound (body_product_id b))"
    by (auto simp: customer_ref_ok_def product_ref_ok_def)
  then have no: "\<not> sale_accepted s b"
    by (auto simp: sale_accepted_def)
  have reply: "snd (post_sales s b) = internal_server_error"
    using no by (rule post_sales_refused)
  have "fst (post_sales s b) = s \<or>
      fst (post_sales s b) = s\<lparr>sales_sale_id_seq := sales_sale_id_seq s + 1\<rparr>"
    using no by (rule post_sales_refused)
  moreover have "post_sales s b =
      (s\<lparr>sales_sale_id_seq := sales_sale_id_seq s + 1\<rparr>, internal_server_error)"
    if "sale_params_ok b" "nextval_ok (sales_sale_id_seq s)"
    using post_sales_refused(3) [OF no that] reply by (simp add: prod_eq_iff)
  ultimately show ?thesis
    using reply post_sales_same_tables [OF no] by (simp add: internal_server_error_def)
qed

theorem create_sale_with_unknown_reference_witness:
  "body_product_id unknown_product = Value 99 \<and> 99 \<notin> set (map product_id (products shop)) \<and>
   sale_params_ok unknown_product \<and> nextval_ok (sales_sale_id_seq shop) \<and>
   post_sales shop unknown_product =
     (shop\<lparr>sales_sale_id_seq := sales_sale_id_seq shop + 1\<rparr>, internal_server_error) \<and>
   status (snd (post_sales shop unknown_product)) = 500 \<and>
   body_customer_id unknown_customer = Value 42 \<and>
   42 \<notin> set (map customer_id (customers shop)) \<and>
   sale_params_ok unknown_customer \<and>
   post_sales shop unknown_customer =
     (shop\<lparr>sales_sale_id_seq := sales_sale_id_seq shop + 1\<rparr>, internal_server_error) \<and>
   status (snd (post_sales shop unknown_customer)) = 500"
proof -
  have h: "body_product_id unknown_product = Value 99 \<and>
      99 \<notin> set (map product_id (products shop))"
    by (simp add: unknown_product_def shop_def widget_def)
  have k: "body_customer_id unknown_customer = Value 42 \<and>
      42 \<notin> set (map customer_id (customers shop))"
    by (simp add: unknown_customer_def shop_def alice_def)
  have ok: "sale_params_ok unknown_product" "sale_params_ok unknown_customer"
    "nextval_ok (sales_sale_id_seq shop)"
    by (simp_all add: sale_params_ok_def int4_ok_def nextval_ok_def unknown_product_def
        unknown_customer_def shop_def)
  show ?thesis
    using h k ok create_sale_with_unknown_reference [of unknown_product 99 shop]
      create_sale_with_unknown_reference [of unknown_customer _ shop 42]
    by blast
qed

text \<open>
  Against C5 as it is written: the answer to a sale of the unknown product 99 and to a
  sale for the unknown customer 42 is 500, not 404.
\<close>

theorem unknown_reference_is_not_404_counterexample:
  "body_product_id unknown_product = Value 99 \<and> map product_id (products shop) = [1] \<and>
   status (snd (post_sales shop unknown_product)) = 500 \<and>
   body_customer_id unknown_customer = Value 42 \<and> map customer_id (customers shop) = [1] \<and>
   status (snd (post_sales shop unknown_customer)) = 500"
  by code_simp

section \<open>The key and the timestamp of a new sale\<close>

text \<open>
  Claim C8, as the code has it. A \<open>POST /sales\<close> that is answered 201 has stored one row
  and returns it; the key of the row is the value drawn from the sequence of \<open>sales\<close>,
  which no older row has; its \<open>timestamp\<close> is NULL.
\<close>

theorem created_sale_has_key_and_null_timestamp:
  assumes "status (snd (post_sales s b)) = 201"
  shows "snd (post_sales s b) = Response 201 (SaleRow (new_sale s b)) \<and>
    sales (fst (post_sales s b)) = sales s @ [new_sale s b] \<and>
    sale_id (new_sale s b) = sales_sale_id_seq s \<and>
    sale_id (new_sale s b) \<notin> set (map sale_id (sales s)) \<and>
    sale_timestamp (new_sale s b) = None"
proof -
  have ok: "sale_accepted s b"
    using assms by (rule post_sales_201)
  then have "post_sales s b =
      (s\<lparr>sales_sale_id_seq := sales_sale_id_seq s + 1, sales := sales s @ [new_sale s b]\<rparr>,
       Response 201 (SaleRow (new_sale s b)))"
    by (rule post_sales_accepted)
  moreover have "sales_sale_id_seq s \<notin> set (map sale_id (sales s))"
    using ok by (simp add: sale_accepted_def)
  ultimately show ?thesis by (simp add: new_sale_def)
qed

theorem created_sale_has_key_and_null_timestamp_witness:
  "status (snd (post_sales shop six_widgets)) = 201 \<and>
   snd (post_sales shop six_widgets) = Response 201 (SaleRow (new_sale shop six_widgets)) \<and>
   sale_id (new_sale shop six_widgets) = 1 \<and>
   sale_timestamp (new_sale shop six_widgets) = None"
proof -
  have h: "status (snd (post_sales shop six_widgets)) = 201"
    by code_simp
  have "sales_sale_id_seq shop = 1"
    by (simp add: shop_def)
  with h show ?thesis
    using created_sale_has_key_and_null_timestamp [OF h] by simp
qed

text \<open>
  Against C8 as it is written: the row returned and stored by a successful
  \<open>POST /sales\<close> has the \<open>timestamp\<close> NULL.
\<close>

theorem created_sale_has_no_timestamp_counterexample:
  "status (snd (post_sales shop six_widgets)) = 201 \<and>
   payload (snd (post_sales shop six_widgets)) =
     SaleRow \<lparr>sale_id = 1, sale_customer_id = Some 1, sale_product_id = Some 1,
       quantity = Some 6, sale_timestamp = None\<rparr> \<and>
   map sale_timestamp (sales (fst (post_sales shop six_widgets))) = [None]"
  by code_simp

section \<open>Updating a row that is not there\<close>

lemma put_product_absent:
  assumes "list_all (\<lambda>p. \<not> product_is i p) (products s)"
  shows "fst (put_product s i b) = s"
    and "int4_ok i \<Longrightarrow> product_params_ok b \<Longrightarrow>
      put_product s i b = (s, Response 404 (ErrorMessage ''Product not found''))"
    and "\<not> (int4_ok i \<and> product_params_ok b) \<Longrightarrow>
      put_product s i b = (s, internal_server_error)"
  using assms
  by (auto simp: put_product_def update_product_def product_params_ok_def filter_none
      map_none)

lemma put_product_404:
  "status (snd (put_product s i b)) = 404 \<Longrightarrow> fst (put_product s i b) = s"
  by (auto simp: put_product_def update_product_def filter_none_iff map_none
      first_product_def internal_server_error_def split: if_splits)

lemma put_product_bad_id: "\<not> int4_ok i \<Longrightarrow> put_product s i b = (s, internal_server_error)"
  by (simp add: put_product_def update_product_def)

lemma put_sale_absent:
  assumes "list_all (\<lambda>r. \<not> sale_is i r) (sales s)"
  shows "fst (put_sale s i b) = s"
    and "int4_ok i \<Longrightarrow> sale_params_ok b \<Longrightarrow>
      put_sale s i b = (s, Response 404 (ErrorMessage ''Sale not found''))"
    and "\<not> (int4_ok i \<and> sale_params_ok b) \<Longrightarrow> put_sale s i b = (s, internal_server_error)"
  using assms
  by (auto simp: put_sale_def update_sale_def sale_params_ok_def Let_def filter_none map_none)

lemma put_sale_404:
  "status (snd (put_sale s i b)) = 404 \<Longrightarrow> fst (put_sale s i b) = s"
  by (auto simp: put_sale_def update_sale_def Let_def filter_none_iff map_none
      internal_server_error_def split: if_splits)

lemma put_sale_bad_id: "\<not> int4_ok i \<Longrightarrow> put_sale s i b = (s, internal_server_error)"
  by (simp add: put_sale_def update_sale_def)

text \<open>
  Claim C10, as the code has it. \<open>PUT /products/:product_id\<close> and \<open>PUT /sales/:sale_id\<close>
  on a key that no row has return the database as it was. The answer is 404 when the key
  is an INTEGER value and the values of the request fit their columns; it is 500 when
  the key is no INTEGER value, and for a sale also when the customer, the product or the
  quantity is none. Whenever either handler answers 404, the database is as it was: no
  table and no sequence has changed.
\<close>

theorem update_of_missing_row_changes_nothing:
  "(k \<notin> set (map product_id (products s)) \<longrightarrow>
      fst (put_product s (Value k) pb) = s \<and>
      (int4_ok (Value k) \<and> product_params_ok pb \<longrightarrow>
         put_product s (Value k) pb = (s, Response 404 (ErrorMessage ''Product not found''))) \<and>
      (\<not> int4_ok (Value k) \<longrightarrow>
         put_product s (Value k) pb = (s, internal_server_error))) \<and>
   (status (snd (put_product s i pb)) = 404 \<longrightarrow> fst (put_product s i pb) = s) \<and>
   (j \<notin> set (map sale_id (sales s)) \<longrightarrow>
      fst (put_sale s (Value j) sb) = s \<and>
      (int4_ok (Value j) \<and> sale_params_ok sb \<longrightarrow>
         put_sale s (Value j) sb = (s, Response 404 (ErrorMessage ''Sale not found''))) \<and>
      (\<not> (int4_ok (Value j) \<and> sale_params_ok sb) \<longrightarrow>
         put_sale s (Value j) sb = (s, internal_server_error))) \<and>
   (status (snd (put_sale s i sb)) = 404 \<longrightarrow> fst (put_sale s i sb) = s)"
proof (intro conjI impI)
  assume k: "k \<notin> set (map product_id (products s))"
  note absent = put_product_absent [OF no_product_is [OF k], of pb]
  show "fst (put_product s (Value k) pb) = s"
    by (rule absent)
  show "put_product s (Value k) pb = (s, Response 404 (ErrorMessage ''Product not found''))"
    if "int4_ok (Value k) \<and> product_params_ok pb"
    using that absent(2) by blast
  show "put_product s (Value k) pb = (s, internal_server_error)"
    if "\<not> int4_ok (Value k)"
    using that by (rule put_product_bad_id)
next
  assume j: "j \<notin> set (map sale_id (sales s))"
  note absent = put_sale_absent [OF no_sale_is [OF j], of sb]
  show "fst (put_sale s (Value j) sb) = s"
    by (rule absent)
  show "put_sale s (Value j) sb = (s, Response 404 (ErrorMessage ''Sale not found''))"
    if "int4_ok (Value j) \<and> sale_params_ok sb"
    using that absent(2) by blast
  show "put_sale s (Value j) sb = (s, internal_server_error)"
    if "\<not> (int4_ok (Value j) \<and> sale_params_ok sb)"
    using that by (rule absent)
qed (fact put_product_404 put_sale_404)+

theorem update_of_missing_row_changes_nothing_witness:
  "7 \<notin> set (map product_id (products shop)) \<and>
   int4_ok (Value 7) \<and> product_params_ok laptop \<and>
   put_product shop (Value 7) laptop =
     (shop, Response 404 (ErrorMessage ''Product not found'')) \<and>
   status (snd (put_product shop (Value 7) laptop)) = 404 \<and>
   fst (put_product shop (Value 7) laptop) = shop \<and>
   99999999999 \<notin> set (map product_id (products shop)) \<and>
   \<not> int4_ok (Value 99999999999) \<and>
   put_product shop (Value 99999999999) laptop = (shop, internal_server_error) \<and>
   3 \<notin> set (map sale_id (sales shop)) \<and>
   int4_ok (Value 3) \<and> sale_params_ok six_widgets \<and>
   put_sale shop (Value 3) six_widgets =
     (shop, Response 404 (ErrorMessage ''Sale not found'')) \<and>
   status (snd (put_sale shop (Value 3) six_widgets)) = 404 \<and>
   fst (put_sale shop (Value 3) six_widgets) = shop \<and>
   \<not> (int4_ok (Value 3) \<and> sale_params_ok too_many_widgets) \<and>
   put_sale shop (Value 3) too_many_widgets = (shop, internal_server_error)"
proof -
  have a: "7 \<notin> set (map product_id (products shop))"
    "99999999999 \<notin> set (map product_id (products shop))"
    "3 \<notin> set (map sale_id (sales shop))"
    by (simp_all add: shop_def widget_def)
  have b: "int4_ok (Value 7)" "int4_ok (Value 3)" "\<not> int4_ok (Value 99999999999)"
    "sale_params_ok six_widgets" "\<not> sale_params_ok too_many_widgets"
    by (simp_all add: int4_ok_def sale_params_ok_def six_widgets_def too_many_widgets_def)
  have c: "product_params_ok laptop"
    by (simp add: product_params_ok_def varchar_ok_def numeric_ok_def round_2_def laptop_def)
  have d: "status (snd (put_product shop (Value 7) laptop)) = 404"
    "status (snd (put_sale shop (Value 3) six_widgets)) = 404"
    by code_simp+
  show ?thesis
    using a b c d
      update_of_missing_row_changes_nothing [of 7 shop laptop "Value 7" 3 six_widgets]
      update_of_missing_row_changes_nothing
        [of 99999999999 shop laptop "Value 7" 3 too_many_widgets]
    by blast
qed

text \<open>
  Against C10 as it is written: no product and no sale has the key 99999999999, and the
  PUT of that key is answered 500, not 404, for products and for sales.
\<close>

theorem update_with_key_out_of_range_counterexample:
  "99999999999 \<notin> set (map product_id (products shop)) \<and>
   status (snd (put_product shop (Value 99999999999) laptop)) = 500 \<and>
   99999999999 \<notin> set (map sale_id (sales shop)) \<and>
   status (snd (put_sale shop (Value 99999999999) six_widgets)) = 500"
  by code_simp

section \<open>The stock column\<close>

lemma stock_after_update:
  "map stock_quantity (filter (\<lambda>p. product_id p = j)
      (map (\<lambda>p. if P p then set_product n pr c p else p) xs)) =
   map stock_quantity (filter (\<lambda>p. product_id p = j) xs)"
  by (induction xs) (auto simp: set_product_def)

lemma stock_after_delete:
  "filter (\<lambda>p. product_id p = j) (filter (\<lambda>p. \<not> product_is i p) xs) =
   (if i = Value j then [] else filter (\<lambda>p. product_id p = j) xs)"
  by (induction xs) (auto simp: product_is_def bound_Some_iff)

lemma put_sale_products: "products (fst (put_sale s i b)) = products s"
  by (simp add: put_sale_def update_sale_def Let_def)

lemma delete_sale_products: "products (fst (delete_sale_route s i)) = products s"
  by (simp add: delete_sale_route_def delete_sale_def)

lemma put_product_stock: "stock_of (fst (put_product s i b)) j = stock_of s j"
  by (simp add: put_product_def update_product_def stock_of_def stock_after_update)

lemma stock_column_after_update:
  "map stock_quantity (map (\<lambda>p. if P p then set_product n pr c p else p) xs) =
   map stock_quantity xs"
  by (induction xs) (simp_all add: set_product_def)

lemma put_product_table:
  "products (fst (put_product s i b)) = products s \<or>
   products (fst (put_product s i b)) =
     map (\<lambda>p. if product_is i p
        then set_product (body_product_name b) (body_price b) (body_category b) p else p)
      (products s)"
  by (simp add: put_product_def update_product_def)

lemma put_product_stock_column:
  "map stock_quantity (products (fst (put_product s i b))) = map stock_quantity (products s)"
  using put_product_table [of s i b]
  by (elim disjE) (simp_all only: stock_column_after_update)

lemma delete_product_stock:
  "stock_of (fst (delete_product_route s i)) j = stock_of s j \<or>
   (i = Value j \<and> stock_of (fst (delete_product_route s i)) j = [])"
  by (simp add: delete_product_route_def delete_product_def Let_def stock_of_def
      stock_after_delete del: filter_filter)

lemma post_products_table:
  "products (fst (post_products s b)) = products s \<or>
   (products_product_id_seq s \<notin> set (map product_id (products s)) \<and>
    products (fst (post_products s b)) = products s @ [new_product s b])"
  by (simp add: post_products_def insert_product_def Let_def new_product_def)

lemma post_products_stock:
  "stock_of s j \<noteq> [] \<Longrightarrow> stock_of (fst (post_products s b)) j = stock_of s j"
  using post_products_table [of s b]
  by (auto simp: stock_of_def filter_empty_conv new_product_def)

text \<open>
  Claim C9. No request writes \<open>stock_quantity\<close>: \<open>POST /sales\<close> leaves the \<open>products\<close>
  table as it was; \<open>PUT /products/:product_id\<close> leaves the stock column as it was;
  \<open>POST /products\<close> leaves it as it was or appends one NULL to it; and for every request
  and every key that a product had before, the stock stored under that key afterwards is
  the stock stored before, unless the request was the DELETE of that key and removed the
  product.
\<close>

theorem no_request_writes_stock_quantity:
  "products (fst (post_sales s sb)) = products s \<and>
   map stock_quantity (products (fst (put_product s i pb))) = map stock_quantity (products s) \<and>
   (map stock_quantity (products (fst (post_products s pb))) = map stock_quantity (products s) \<or>
    map stock_quantity (products (fst (post_products s pb))) =
      map stock_quantity (products s) @ [None]) \<and>
   (stock_of s j \<noteq> [] \<longrightarrow>
      stock_of (fst (handle s r)) j = stock_of s j \<or>
      (r = DeleteProduct (Value j) \<and> stock_of (fst (handle s r)) j = []))"
proof -
  have "stock_of (fst (handle s r)) j = stock_of s j \<or>
        (r = DeleteProduct (Value j) \<and> stock_of (fst (handle s r)) j = [])"
    if "stock_of s j \<noteq> []"
  proof (cases r)
    case (CreateProduct b)
    then show ?thesis using that by (simp add: post_products_stock)
  next
    case (UpdateProduct k b)
    then show ?thesis by (simp add: put_product_stock)
  next
    case (DeleteProduct k)
    then show ?thesis using delete_product_stock [of s k j] by auto
  next
    case (CreateSale b)
    then show ?thesis by (simp add: stock_of_def post_sales_products)
  next
    case (UpdateSale k b)
    then show ?thesis by (simp add: stock_of_def put_sale_products)
  next
    case (DeleteSale k)
    then show ?thesis by (simp add: stock_of_def delete_sale_products)
  qed (simp_all add: get_products_def get_product_def get_sales_def get_sale_def
      select_products_def select_product_def select_sales_def select_sale_def)
  moreover have
    "map stock_quantity (products (fst (post_products s pb))) = map stock_quantity (products s) \<or>
     map stock_quantity (products (fst (post_products s pb))) =
       map stock_quantity (products s) @ [None]"
    using post_products_table [of s pb] by (auto simp: new_product_def)
  ultimately show ?thesis
    by (simp add: post_sales_products put_product_stock_column)
qed

theorem no_request_writes_stock_quantity_witness:
  "stock_of shop 1 \<noteq> [] \<and>
   stock_of (fst (handle shop (UpdateProduct (Value 1) laptop))) 1 = stock_of shop 1 \<and>
   stock_of (fst (handle shop (DeleteProduct (Value 1)))) 1 = []"
proof -
  have "stock_of shop 1 \<noteq> []"
    by (simp add: stock_of_def shop_def widget_def)
  moreover have "stock_of (fst (handle shop (DeleteProduct (Value 1)))) 1 = []"
    by code_simp
  ultimately show ?thesis
    using no_request_writes_stock_quantity [of shop _ _ _ 1 "UpdateProduct (Value 1) laptop"]
    by simp
qed

section \<open>Stock over sequences of requests\<close>

lemma handle_keeps_stock_property:
  assumes "P None" and "list_all (\<lambda>p. P (stock_quantity p)) (products s)"
  shows "list_all (\<lambda>p. P (stock_quantity p)) (products (fst (handle s r)))"
proof -
  have col: "list_all (\<lambda>p. P (stock_quantity p)) xs = list_all P (map stock_quantity xs)"
    for xs :: "product list"
    by (simp add: list_all_iff)
  show ?thesis
  proof (cases r)
    case (CreateProduct b)
    then show ?thesis
      using assms post_products_table [of s b] by (auto simp: new_product_def)
  next
    case (UpdateProduct k b)
    then show ?thesis
      using assms by (simp add: col put_product_stock_column)
  next
    case (DeleteProduct k)
    then show ?thesis
      using assms
      by (auto simp: delete_product_route_def delete_product_def Let_def list_all_iff)
  next
    case (CreateSale b)
    then show ?thesis using assms by (simp add: post_sales_products)
  next
    case (UpdateSale k b)
    then show ?thesis using assms by (simp add: put_sale_products)
  next
    case (DeleteSale k)
    then show ?thesis using assms by (simp add: delete_sale_products)
  qed (use assms in \<open>simp_all add: get_products_def get_product_def get_sales_def get_sale_def
      select_products_def select_product_def select_sales_def select_sale_def\<close>)
qed

lemma run_step: "fst (run s (r # rs)) = fst (run (fst (handle s r)) rs)"
  by (simp split: prod.splits)

lemma run_step_replies:
  "snd (run s (r # rs)) = snd (handle s r) # snd (run (fst (handle s r)) rs)"
  by (simp split: prod.splits)

lemma run_keeps_stock_property:
  assumes "P None"
  shows "list_all (\<lambda>p. P (stock_quantity p)) (products s) \<Longrightarrow>
    list_all (\<lambda>p. P (stock_quantity p)) (products (fst (run s rs)))"
proof (induction rs arbitrary: s)
  case Nil
  then show ?case by simp
next
  case (Cons r rs)
  have "list_all (\<lambda>p. P (stock_quantity p)) (products (fst (handle s r)))"
    using assms Cons.prems by (rule handle_keeps_stock_property)
  then show ?case
    unfolding run_step by (rule Cons.IH)
qed

text \<open>
  Claim C2, as the code has it. No request can make a stock negative: if every stored
  product has a \<open>stock_quantity\<close> that is NULL or at least zero, the same holds after any
  sequence of requests. Starting from the empty database, every stored product has the
  \<open>stock_quantity\<close> NULL after any sequence of requests, since \<open>POST /products\<close> never
  stores a stock.
\<close>

theorem stock_stays_null_or_not_negative:
  "(list_all stock_not_negative (products s) \<longrightarrow>
      list_all stock_not_negative (products (fst (run s rs)))) \<and>
   list_all stock_is_null (products (fst (run empty_db rs)))"
proof -
  have a: "list_all stock_not_negative (products (fst (run s rs)))"
    if "list_all stock_not_negative (products s)"
    using run_keeps_stock_property [of "\<lambda>v. case v of None \<Rightarrow> True | Some n \<Rightarrow> 0 \<le> n" s rs] that
    by (simp add: stock_not_negative_def [abs_def])
  have "list_all stock_is_null (products (fst (run empty_db rs)))"
    using run_keeps_stock_property [of "\<lambda>v. v = None" empty_db rs]
    by (simp add: stock_is_null_def [abs_def] empty_db_def)
  with a show ?thesis by blast
qed

theorem stock_stays_null_or_not_negative_witness:
  "list_all stock_not_negative (products shop) \<and>
   list_all stock_not_negative
     (products (fst (run shop [CreateSale twelve_widgets, CreateProduct nameless])))"
proof -
  have "list_all stock_not_negative (products shop)"
    by (simp add: shop_def widget_def stock_not_negative_def)
  then show ?thesis
    using stock_stays_null_or_not_negative
      [of shop "[CreateSale twelve_widgets, CreateProduct nameless]"] by blast
qed

text \<open>
  Against C2 as it is written: the product stored by one \<open>POST /products\<close> on the empty
  database has no \<open>stock_quantity\<close> at all (NULL), although the request carried 5.
\<close>

theorem created_product_has_null_stock_counterexample:
  "body_stock_quantity laptop = Value 5 \<and>
   map stock_quantity (products (fst (run empty_db [CreateProduct laptop]))) = [None]"
  by code_simp

section \<open>Sales in any order\<close>

lemma fresh_key: "sale_keys_below_seq s \<Longrightarrow> sales_sale_id_seq s \<notin> set (map sale_id (sales s))"
  by (auto simp: sale_keys_below_seq_def list_all_iff)

lemma post_sales_keys_below:
  "sale_keys_below_seq s \<Longrightarrow> sale_keys_below_seq (fst (post_sales s b))"
  by (auto simp: post_sales_def insert_sale_def Let_def sale_keys_below_seq_def list_all_iff)

lemma create_sale_with_refs_step:
  "create_sale_with_refs s r \<Longrightarrow> create_sale_with_refs (fst (post_sales s b)) r"
  by (cases r) (simp_all add: customer_ref_ok_def product_ref_ok_def post_sales_products
      post_sales_customers split: option.splits)

lemma run_create_sales:
  "list_all (create_sale_with_refs s) rs \<Longrightarrow> sale_keys_below_seq s \<Longrightarrow>
   1 \<le> sales_sale_id_seq s \<Longrightarrow> sales_sale_id_seq s + int (length rs) \<le> 2147483648 \<Longrightarrow>
   products (fst (run s rs)) = products s \<and>
   map status (snd (run s rs)) = replicate (length rs) 201 \<and>
   length (sales (fst (run s rs))) = length (sales s) + length rs"
proof (induction rs arbitrary: s)
  case Nil
  then show ?case by simp
next
  case (Cons r rs)
  from Cons.prems(1) obtain b where r: "r = CreateSale b"
    and refs: "sale_params_ok b" "customer_ref_ok s (bound (body_customer_id b))"
      "product_ref_ok s (bound (body_product_id b))"
    by (cases r) auto
  let ?s1 = "fst (post_sales s b)"
  have "nextval_ok (sales_sale_id_seq s)"
    using Cons.prems(3,4) by (simp add: nextval_ok_def)
  then have "sale_accepted s b"
    using refs fresh_key [OF Cons.prems(2)] by (simp add: sale_accepted_def)
  then have step: "post_sales s b =
      (s\<lparr>sales_sale_id_seq := sales_sale_id_seq s + 1, sales := sales s @ [new_sale s b]\<rparr>,
       Response 201 (SaleRow (new_sale s b)))"
    by (rule post_sales_accepted)
  have "list_all (create_sale_with_refs ?s1) rs"
    using Cons.prems(1) by (auto simp: list_all_iff create_sale_with_refs_step)
  moreover have "sale_keys_below_seq ?s1"
    using Cons.prems(2) by (rule post_sales_keys_below)
  moreover have "1 \<le> sales_sale_id_seq ?s1"
    and "sales_sale_id_seq ?s1 + int (length rs) \<le> 2147483648"
    using Cons.prems(3,4) by (simp_all add: step)
  ultimately have IH: "products (fst (run ?s1 rs)) = products ?s1 \<and>
      map status (snd (run ?s1 rs)) = replicate (length rs) 201 \<and>
      length (sales (fst (run ?s1 rs))) = length (sales ?s1) + length rs"
    by (rule Cons.IH)
  have "status (snd (post_sales s b)) = 201"
    and "length (sales ?s1) = Suc (length (sales s))"
    by (simp_all add: step)
  with IH show ?case
    unfolding run_step run_step_replies r handle.simps
    by (simp add: post_sales_products)
qed

lemma run_only_create_sales:
  "list_all is_create_sale rs \<Longrightarrow>
   products (fst (run s rs)) = products s \<and> 409 \<notin> set (map status (snd (run s rs)))"
proof (induction rs arbitrary: s)
  case Nil
  then show ?case by simp
next
  case (Cons r rs)
  from Cons.prems obtain b where r: "r = CreateSale b"
    by (cases r) auto
  have "products (fst (run (fst (post_sales s b)) rs)) = products (fst (post_sales s b)) \<and>
      409 \<notin> set (map status (snd (run (fst (post_sales s b)) rs)))"
    using Cons.prems by (intro Cons.IH) simp
  moreover have "status (snd (post_sales s b)) \<noteq> 409"
    using post_sales_status [of s b] by auto
  ultimately show ?case
    unfolding run_step run_step_replies r handle.simps
    by (simp add: post_sales_products)
qed

text \<open>
  Claim C3, as the code has it. Whatever the order in which the statements of a set of
  \<open>POST /sales\<close> requests run, the \<open>products\<close> table is afterwards as it was before and
  no request is answered 409. When the parameters of the requests are INTEGER values or
  NULL, their customers and products are stored, and the sequence of \<open>sales\<close> is ahead of
  its keys and has a value left for each request, every request is answered 201 and each
  inserts one row.
\<close>

theorem sales_in_any_order_keep_stock:
  "(list_all is_create_sale rs \<longrightarrow>
      products (fst (run s rs)) = products s \<and> 409 \<notin> set (map status (snd (run s rs)))) \<and>
   (list_all (create_sale_with_refs s) rs \<and> sale_keys_below_seq s \<and>
    1 \<le> sales_sale_id_seq s \<and> sales_sale_id_seq s + int (length rs) \<le> 2147483648 \<longrightarrow>
      map status (snd (run s rs)) = replicate (length rs) 201 \<and>
      length (sales (fst (run s rs))) = length (sales s) + length rs)"
  using run_only_create_sales [of rs s] run_create_sales [of s rs] by blast

theorem sales_in_any_order_keep_stock_witness:
  "list_all is_create_sale [CreateSale six_widgets, CreateSale twelve_widgets] \<and>
   list_all (create_sale_with_refs shop) [CreateSale six_widgets, CreateSale twelve_widgets] \<and>
   sale_keys_below_seq shop \<and> 1 \<le> sales_sale_id_seq shop \<and>
   sales_sale_id_seq shop + int (length [CreateSale six_widgets, CreateSale twelve_widgets])
     \<le> 2147483648 \<and>
   products (fst (run shop [CreateSale six_widgets, CreateSale twelve_widgets])) = products shop \<and>
   map status (snd (run shop [CreateSale six_widgets, CreateSale twelve_widgets])) = [201, 201] \<and>
   length (sales (fst (run shop [CreateSale six_widgets, CreateSale twelve_widgets]))) = 2"
proof -
  have "list_all is_create_sale [CreateSale six_widgets, CreateSale twelve_widgets]"
    and "list_all (create_sale_with_refs shop) [CreateSale six_widgets, CreateSale twelve_widgets]"
    and "sale_keys_below_seq shop"
    and "1 \<le> sales_sale_id_seq shop"
    and "sales_sale_id_seq shop + int (length [CreateSale six_widgets, CreateSale twelve_widgets])
      \<le> 2147483648"
    and "sales shop = []"
    by (simp_all add: customer_ref_ok_def product_ref_ok_def shop_def six_widgets_def
        twelve_widgets_def alice_def widget_def sale_keys_below_seq_def sale_params_ok_def
        int4_ok_def)
  then show ?thesis
    using sales_in_any_order_keep_stock
      [of "[CreateSale six_widgets, CreateSale twelve_widgets]" shop]
    by (simp add: numeral_2_eq_2)
qed

text \<open>
  Against C3 as it is written: two sales of six against a stock of ten are both answered
  201, and the stock is still ten.
\<close>

theorem two_sales_of_six_both_succeed_counterexample:
  "stock_of shop 1 = [Some 10] \<and> body_quantity six_widgets = Value 6 \<and>
   map status (snd (run shop [CreateSale six_widgets, CreateSale six_widgets])) = [201, 201] \<and>
   stock_of (fst (run shop [CreateSale six_widgets, CreateSale six_widgets])) 1 = [Some 10]"
  by code_simp

section \<open>Creating a product\<close>

lemma post_products_accepted:
  assumes "product_accepted s b"
  shows "post_products s b =
    (s\<lparr>products_product_id_seq := products_product_id_seq s + 1,
       products := products s @ [new_product s b]\<rparr>,
     Response 201 (ProductRow (new_product s b)))"
  using assms
  by (simp add: product_accepted_def product_params_ok_def post_products_def
      insert_product_def Let_def new_product_def first_product_def)

lemma post_products_refused:
  assumes "\<not> product_accepted s b"
  shows "snd (post_products s b) = internal_server_error"
    and "fst (post_products s b) = s \<or>
      fst (post_products s b) = s\<lparr>products_product_id_seq := products_product_id_seq s + 1\<rparr>"
    and "\<not> product_params_ok b \<Longrightarrow> fst (post_products s b) = s"
  using assms
  by (auto simp: product_accepted_def product_params_ok_def post_products_def
      insert_product_def Let_def)

lemma post_products_same_tables:
  "\<not> product_accepted s b \<Longrightarrow> same_tables (fst (post_products s b)) s"
  using post_products_refused(2) [of s b]
  by (auto simp: same_tables_refl same_tables_products_seq)

lemma post_products_status:
  "status (snd (post_products s b)) = 201 \<or> status (snd (post_products s b)) = 500"
  by (simp add: post_products_def insert_product_def Let_def internal_server_error_def)

lemma post_products_201:
  assumes "status (snd (post_products s b)) = 201"
  shows "product_accepted s b"
proof (rule ccontr)
  assume "\<not> product_accepted s b"
  then have "snd (post_products s b) = internal_server_error"
    by (rule post_products_refused)
  with assms show False by (simp add: internal_server_error_def)
qed

lemma malformed_price: "body_price b = Malformed \<Longrightarrow> \<not> product_params_ok b"
  by (simp add: product_params_ok_def numeric_ok_def)

lemma round_2_bound:
  assumes "\<bar>r\<bar> \<le> 99999999"
  shows "\<bar>round_2 r\<bar> < 100000000"
proof -
  have fl: "of_int \<lfloor>x\<rfloor> \<le> x" "0 \<le> x \<Longrightarrow> (0::rat) \<le> of_int \<lfloor>x\<rfloor>" for x :: rat
    by simp_all
  show ?thesis
  proof (cases "0 \<le> r")
    case True
    then have "0 \<le> r * 100 + 1 / 2" by simp
    then have "0 \<le> (of_int \<lfloor>r * 100 + 1 / 2\<rfloor> :: rat)" by (rule fl)
    moreover have "(of_int \<lfloor>r * 100 + 1 / 2\<rfloor> :: rat) \<le> r * 100 + 1 / 2" by (rule fl)
    ultimately show ?thesis
      using True assms by (simp add: round_2_def)
  next
    case False
    then have "0 \<le> - r * 100 + 1 / 2" by simp
    then have "0 \<le> (of_int \<lfloor>- r * 100 + 1 / 2\<rfloor> :: rat)" by (rule fl)
    moreover have "(of_int \<lfloor>- r * 100 + 1 / 2\<rfloor> :: rat) \<le> - r * 100 + 1 / 2" by (rule fl)
    ultimately show ?thesis
      using False assms by (simp add: round_2_def)
  qed
qed

lemma round_2_cents: "round_2 (of_int k / 100) = of_int k / 100"
proof -
  have "\<lfloor>(of_int n :: rat) + 1 / 2\<rfloor> = n" for n
    by (simp add: floor_unique)
  then show ?thesis
    by (simp add: round_2_def flip: of_int_minus)
qed

lemma blank_fits: "varchar_ok n None" "varchar_ok n (Some [])"
  by (simp_all add: varchar_ok_def)

text \<open>
  Claim C4, as the code has it. \<open>POST /products\<close> validates nothing and never answers 400.
  When the name fits VARCHAR(100), the category VARCHAR(50) and the price NUMERIC(10, 2),
  and the sequence gives a key that is free, it stores exactly one new row and answers
  201 with it; a missing or empty name or category and a negative price down to
  \<open>-99999999\<close> fit. The row holds the name and the category, cut to the length of the
  column, and the price rounded to two decimal places; its \<open>description\<close> and
  \<open>stock_quantity\<close> are NULL whatever the request says. In every other case, so when
  the price is not a number, it answers 500 and no table has changed.
\<close>

theorem create_product_stores_any_values:
  "status (snd (post_products s b)) \<noteq> 400 \<and>
   (product_accepted s b \<longrightarrow>
      post_products s b =
        (s\<lparr>products_product_id_seq := products_product_id_seq s + 1,
           products := products s @ [new_product s b]\<rparr>,
         Response 201 (ProductRow (new_product s b)))) \<and>
   (\<not> product_accepted s b \<longrightarrow>
      snd (post_products s b) = internal_server_error \<and>
      same_tables (fst (post_products s b)) s) \<and>
   (body_price b = Malformed \<longrightarrow>
      snd (post_products s b) = internal_server_error \<and>
      same_tables (fst (post_products s b)) s) \<and>
   ((body_product_name b = None \<or> body_product_name b = Some []) \<and>
    (body_category b = None \<or> body_category b = Some []) \<and>
    body_price b = Value (Decimal r) \<and> - 99999999 \<le> r \<and> r < 0 \<longrightarrow>
      product_params_ok b) \<and>
   product_name (new_product s b) = varchar 100 (body_product_name b) \<and>
   price (new_product s b) = numeric_10_2 (body_price b) \<and>
   category (new_product s b) = varchar 50 (body_category b) \<and>
   description (new_product s b) = None \<and>
   stock_quantity (new_product s b) = None"
proof -
  have "status (snd (post_products s b)) \<noteq> 400"
    using post_products_status [of s b] by auto
  moreover have "snd (post_products s b) = internal_server_error \<and>
      same_tables (fst (post_products s b)) s"
    if "body_price b = Malformed"
  proof -
    from malformed_price [OF that] have "\<not> product_accepted s b"
      by (simp add: product_accepted_def)
    then show ?thesis
      using post_products_refused(1) [of s b] post_products_same_tables [of s b] by simp
  qed
  moreover have "product_params_ok b"
    if "body_product_name b = None \<or> body_product_name b = Some []"
      and "body_category b = None \<or> body_category b = Some []"
      and "body_price b = Value (Decimal r)" and "- 99999999 \<le> r" and "r < 0"
  proof -
    have "\<bar>round_2 r\<bar> < 100000000"
      using that(4,5) by (intro round_2_bound) simp
    then have "numeric_ok (body_price b)"
      by (simp add: numeric_ok_def that(3))
    then show ?thesis
      using that(1,2) blank_fits by (auto simp: product_params_ok_def)
  qed
  ultimately show ?thesis
    using post_products_accepted [of s b] post_products_refused(1) [of s b]
      post_products_same_tables [of s b]
    by (simp add: new_product_def)
qed

theorem create_product_stores_any_values_witness:
  "product_accepted empty_db nameless \<and>
   post_products empty_db nameless =
     (empty_db\<lparr>products_product_id_seq := products_product_id_seq empty_db + 1,
        products := products empty_db @ [new_product empty_db nameless]\<rparr>,
      Response 201 (ProductRow (new_product empty_db nameless))) \<and>
   \<not> product_accepted stale_shop nameless \<and>
   snd (post_products stale_shop nameless) = internal_server_error \<and>
   same_tables (fst (post_products stale_shop nameless)) stale_shop \<and>
   body_price (laptop\<lparr>body_price := Malformed\<rparr>) = Malformed \<and>
   snd (post_products shop (laptop\<lparr>body_price := Malformed\<rparr>)) = internal_server_error \<and>
   same_tables (fst (post_products shop (laptop\<lparr>body_price := Malformed\<rparr>))) shop \<and>
   (body_product_name nameless = None \<or> body_product_name nameless = Some []) \<and>
   (body_category nameless = None \<or> body_category nameless = Some []) \<and>
   body_price nameless = Value (Decimal (- 5)) \<and> - 99999999 \<le> (- 5 :: rat) \<and>
   (- 5 :: rat) < 0 \<and> product_params_ok nameless"
proof -
  have a: "body_product_name nameless = None" "body_category nameless = Some []"
    "body_price nameless = Value (Decimal (- 5))"
    "body_price (laptop\<lparr>body_price := Malformed\<rparr>) = Malformed"
    by (simp_all add: nameless_def)
  have b: "product_params_ok nameless"
    using create_product_stores_any_values [of empty_db nameless "- 5"] a by simp
  then have c: "product_accepted empty_db nameless" "\<not> product_accepted stale_shop nameless"
    by (simp_all add: product_accepted_def nextval_ok_def empty_db_def stale_shop_def shop_def
        widget_def)
  show ?thesis
    using a b c create_product_stores_any_values [of empty_db nameless]
      create_product_stores_any_values [of stale_shop nameless]
      create_product_stores_any_values [of shop "laptop\<lparr>body_price := Malformed\<rparr>"]
    by simp
qed

text \<open>
  Against C4 as it is written: a request without a name, with the price \<open>-5\<close>, an empty
  category and the stock \<open>-3\<close> is answered 201 and one row is stored; a request whose
  price is not a number is answered 500, not 400.
\<close>

theorem create_product_accepts_invalid_counterexample:
  "body_product_name nameless = None \<and> body_price nameless = Value (Decimal (- 5)) \<and>
   body_category nameless = Some [] \<and> body_stock_quantity nameless = Value (- 3) \<and>
   status (snd (post_products empty_db nameless)) = 201 \<and>
   length (products empty_db) = 0 \<and>
   length (products (fst (post_products empty_db nameless))) = 1 \<and>
   status (snd (post_products empty_db (laptop\<lparr>body_price := Malformed\<rparr>))) = 500"
  by code_simp

section \<open>Reading back a product\<close>

lemma filter_updated_same:
  "filter (product_is i) (map (\<lambda>p. if product_is i p then set_product n pr c p else p) xs) =
   map (set_product n pr c) (filter (product_is i) xs)"
  by (induction xs) (auto simp: set_product_def product_is_def)

lemma filter_updated_other:
  "j \<noteq> i \<Longrightarrow>
   filter (product_is j) (map (\<lambda>p. if product_is i p then set_product n pr c p else p) xs) =
   filter (product_is j) xs"
proof (induction xs)
  case Nil
  then show ?case by simp
next
  case (Cons p xs)
  have "\<not> product_is j p" if "product_is i p"
    using that Cons.prems by (cases i; cases j) (auto simp: product_is_def bound_def)
  moreover have "product_is j (set_product n pr c p) = product_is j p"
    by (simp add: product_is_def set_product_def)
  ultimately show ?case
    using Cons by auto
qed

lemma get_product_after_post:
  assumes "status (snd (post_products s b)) = 201"
  shows "get_product (fst (post_products s b)) (Value (product_id (new_product s b))) =
    (fst (post_products s b), Response 200 (ProductRow (new_product s b)))"
proof -
  have ok: "product_accepted s b"
    using assms by (rule post_products_201)
  then have fresh: "products_product_id_seq s \<notin> set (map product_id (products s))"
    and key: "int4_ok (Value (products_product_id_seq s))"
    by (simp_all add: product_accepted_def nextval_ok_def int4_ok_def)
  have "filter (product_is (Value (products_product_id_seq s))) (products s) = []"
    using no_product_is [OF fresh] by (rule filter_none)
  then show ?thesis
    using key
    by (simp add: post_products_accepted [OF ok] get_product_def select_product_def
        new_product_def first_product_def product_is_def)
qed

lemma get_product_200:
  assumes "get_product s i = (s, Response 200 (ProductRow old))"
  shows "int4_ok i" and "\<exists>rest. filter (product_is i) (products s) = old # rest"
proof -
  show ok: "int4_ok i"
    using assms
    by (auto simp: get_product_def select_product_def internal_server_error_def
        split: if_splits)
  show "\<exists>rest. filter (product_is i) (products s) = old # rest"
    using assms ok
    by (cases "filter (product_is i) (products s)")
      (simp_all add: get_product_def select_product_def first_product_def)
qed

lemma put_product_price:
  assumes "get_product s i = (s, Response 200 (ProductRow old))"
    and "product_params_ok b"
    and "varchar 100 (body_product_name b) = product_name old"
    and "varchar 50 (body_category b) = category old"
  shows "snd (put_product s i b) =
      Response 200 (ProductRow (old\<lparr>price := numeric_10_2 (body_price b)\<rparr>))"
    and "get_product (fst (put_product s i b)) i =
      (fst (put_product s i b),
       Response 200 (ProductRow (old\<lparr>price := numeric_10_2 (body_price b)\<rparr>)))"
proof -
  obtain rest where hit: "filter (product_is i) (products s) = old # rest"
    using get_product_200(2) [OF assms(1)] by auto
  have i: "int4_ok i"
    using assms(1) by (rule get_product_200)
  have row: "set_product (body_product_name b) (body_price b) (body_category b) old =
      old\<lparr>price := numeric_10_2 (body_price b)\<rparr>"
    by (simp add: set_product_def assms(3,4))
  have upd: "update_product s (body_product_name b) (body_price b) (body_category b) i =
      (s\<lparr>products := map (\<lambda>p. if product_is i p
          then set_product (body_product_name b) (body_price b) (body_category b) p else p)
          (products s)\<rparr>,
       Inr (old\<lparr>price := numeric_10_2 (body_price b)\<rparr> #
         map (set_product (body_product_name b) (body_price b) (body_category b)) rest))"
    using assms(2) i by (simp add: update_product_def product_params_ok_def hit row)
  show "snd (put_product s i b) =
      Response 200 (ProductRow (old\<lparr>price := numeric_10_2 (body_price b)\<rparr>))"
    by (simp add: put_product_def upd first_product_def)
  show "get_product (fst (put_product s i b)) i =
      (fst (put_product s i b),
       Response 200 (ProductRow (old\<lparr>price := numeric_10_2 (body_price b)\<rparr>)))"
    using i
    by (simp add: put_product_def upd get_product_def select_product_def
        filter_updated_same hit row first_product_def)
qed

lemma put_product_other_keys:
  "j \<noteq> i \<Longrightarrow> select_product (fst (put_product s i b)) j = select_product s j"
  using put_product_table [of s i b]
  by (auto simp: select_product_def filter_updated_other)

lemma varchar_short: "length t \<le> n \<Longrightarrow> varchar n (Some t) = Some t"
  by (simp add: varchar_def)

lemma numeric_cents:
  "numeric_10_2 (Value (Decimal (of_int k / 100))) = Some (Decimal (of_int k / 100))"
  by (simp add: numeric_10_2_def round_2_cents)

text \<open>
  Claim C7, as the code has it. After a \<open>POST /products\<close> that is answered 201, the GET of
  the assigned key returns the row that the POST returned: the assigned key, the name and
  the category cut to the length of their columns (unchanged when they are no longer
  than that), the price rounded to two decimal places (unchanged when it has no more than
  two), and NULL for \<open>description\<close> and \<open>stock_quantity\<close>. After a
  \<open>PUT /products/:product_id\<close> that repeats the name and category of the stored product
  and gives a price that fits, the PUT and the following GET return the product as it was
  with the rounded new price and nothing else changed; the products under other keys are
  as before.
\<close>

theorem product_round_trip:
  "(status (snd (post_products s b)) = 201 \<longrightarrow>
      snd (post_products s b) = Response 201 (ProductRow (new_product s b)) \<and>
      get_product (fst (post_products s b)) (Value (product_id (new_product s b))) =
        (fst (post_products s b), Response 200 (ProductRow (new_product s b))) \<and>
      product_name (new_product s b) = varchar 100 (body_product_name b) \<and>
      price (new_product s b) = numeric_10_2 (body_price b) \<and>
      category (new_product s b) = varchar 50 (body_category b) \<and>
      description (new_product s b) = None \<and>
      stock_quantity (new_product s b) = None) \<and>
   (length t \<le> n \<longrightarrow> varchar n (Some t) = Some t) \<and>
   numeric_10_2 (Value (Decimal (of_int k / 100))) = Some (Decimal (of_int k / 100)) \<and>
   (get_product s i = (s, Response 200 (ProductRow old)) \<and> product_params_ok c \<and>
    varchar 100 (body_product_name c) = product_name old \<and>
    varchar 50 (body_category c) = category old \<longrightarrow>
      snd (put_product s i c) =
        Response 200 (ProductRow (old\<lparr>price := numeric_10_2 (body_price c)\<rparr>)) \<and>
      get_product (fst (put_product s i c)) i =
        (fst (put_product s i c),
         Response 200 (ProductRow (old\<lparr>price := numeric_10_2 (body_price c)\<rparr>))) \<and>
      (j \<noteq> i \<longrightarrow> select_product (fst (put_product s i c)) j = select_product s j))"
proof -
  have "snd (post_products s b) = Response 201 (ProductRow (new_product s b))"
    if "status (snd (post_products s b)) = 201"
    using post_products_accepted [OF post_products_201 [OF that]] by simp
  then show ?thesis
    using get_product_after_post [of s b] put_product_price [of s i old c]
      put_product_other_keys [of j i s c] varchar_short [of t n] numeric_cents [of k]
    by (simp add: new_product_def)
qed

theorem product_round_trip_witness:
  "status (snd (post_products empty_db laptop)) = 201 \<and>
   get_product (fst (post_products empty_db laptop)) (Value 1) =
     (fst (post_products empty_db laptop),
      Response 200 (ProductRow (new_product empty_db laptop))) \<and>
   stock_quantity (new_product empty_db laptop) = None \<and>
   length ''Laptop'' \<le> 100 \<and> varchar 100 (Some ''Laptop'') = Some ''Laptop'' \<and>
   get_product shop (Value 1) = (shop, Response 200 (ProductRow widget)) \<and>
   product_params_ok widget_repriced \<and>
   varchar 100 (body_product_name widget_repriced) = product_name widget \<and>
   varchar 50 (body_category widget_repriced) = category widget \<and>
   get_product (fst (put_product shop (Value 1) widget_repriced)) (Value 1) =
     (fst (put_product shop (Value 1) widget_repriced),
      Response 200 (ProductRow (widget\<lparr>price := Some (Decimal 20)\<rparr>))) \<and>
   Value 2 \<noteq> (Value 1 :: int param) \<and>
   select_product (fst (put_product shop (Value 1) widget_repriced)) (Value 2) =
     select_product shop (Value 2)"
proof -
  have a: "status (snd (post_products empty_db laptop)) = 201"
    by code_simp
  have b: "get_product shop (Value 1) = (shop, Response 200 (ProductRow widget))"
    by (simp add: get_product_def select_product_def shop_def widget_def first_product_def
        int4_ok_def product_is_def)
  have c: "product_params_ok widget_repriced"
    "varchar 100 (body_product_name widget_repriced) = product_name widget"
    "varchar 50 (body_category widget_repriced) = category widget"
    "numeric_10_2 (body_price widget_repriced) = Some (Decimal 20)"
    "product_id (new_product empty_db laptop) = 1"
    "length ''Laptop'' \<le> 100"
    by code_simp+
  show ?thesis
    using a b c product_round_trip [of empty_db laptop "''Laptop''" 100]
      product_round_trip [of shop laptop _ _ _ "Value 1" widget widget_repriced "Value 2"]
    by simp
qed

text \<open>
  Against C7 as it is written: a product created with \<open>stock_quantity\<close> 5 is read back
  with \<open>stock_quantity\<close> NULL, and a product created with the price 19.999 is read back
  with the price 20.
\<close>

theorem created_product_loses_stock_counterexample:
  "body_stock_quantity laptop = Value 5 \<and>
   status (snd (post_products empty_db laptop)) = 201 \<and>
   payload (snd (get_product (fst (post_products empty_db laptop)) (Value 1))) =
     ProductRow \<lparr>product_id = 1, product_name = Some ''Laptop'', price = Some (Decimal 1200),
       category = Some ''Electronics'', description = None, stock_quantity = None\<rparr> \<and>
   status (snd (post_products empty_db widget_repriced)) = 201 \<and>
   body_price widget_repriced = Value (Decimal (19999 / 1000)) \<and>
   payload (snd (get_product (fst (post_products empty_db widget_repriced)) (Value 1))) =
     ProductRow \<lparr>product_id = 1, product_name = Some ''Widget'', price = Some (Decimal 20),
       category = Some ''Tools'', description = None, stock_quantity = None\<rparr>"
  by code_simp

section \<open>Deleting a product\<close>

lemma delete_product_absent:
  assumes "k \<notin> set (map product_id (products s))"
  shows "fst (delete_product_route s (Value k)) = s"
    and "int4_ok (Value k) \<Longrightarrow>
      delete_product_route s (Value k) = (s, Response 404 (ErrorMessage ''Product not found''))"
proof -
  have none: "filter (product_is (Value k)) (products s) = []"
    and rest: "filter (\<lambda>p. \<not> product_is (Value k) p) (products s) = products s"
    using no_product_is [OF assms] by (simp_all add: filter_none filter_all)
  show "fst (delete_product_route s (Value k)) = s"
    by (simp add: delete_product_route_def delete_product_def Let_def none rest)
  show "delete_product_route s (Value k) =
      (s, Response 404 (ErrorMessage ''Product not found''))" if "int4_ok (Value k)"
    using that by (simp add: delete_product_route_def delete_product_def Let_def none rest)
qed

lemma delete_product_bad_id:
  "\<not> int4_ok i \<Longrightarrow> delete_product_route s i = (s, internal_server_error)"
  by (simp add: delete_product_route_def delete_product_def)

lemma delete_product_sold:
  assumes "k \<in> set (map product_id (products s))"
    and "Some k \<in> set (map sale_product_id (sales s))"
  shows "delete_product_route s (Value k) = (s, internal_server_error)"
proof (cases "int4_ok (Value k)")
  case True
  obtain p where p: "p \<in> set (products s)" "product_id p = k"
    using assms(1) by auto
  have "product_referenced s k"
    using assms(2) by (simp add: product_referenced_def)
  with p have "list_ex (\<lambda>p. product_referenced s (product_id p))
      (filter (product_is (Value k)) (products s))"
    by (auto simp: list_ex_iff product_is_def)
  then show ?thesis
    using True by (simp add: delete_product_route_def delete_product_def Let_def)
next
  case False
  then show ?thesis by (rule delete_product_bad_id)
qed

section \<open>Sales keep referencing stored products\<close>

lemma sale_refs_ok_mono:
  assumes "sale_refs_ok s r"
    and "set (map customer_id (customers s)) \<subseteq> set (map customer_id (customers s'))"
    and "\<And>k. sale_product_id r = Some k \<Longrightarrow> k \<in> set (map product_id (products s)) \<Longrightarrow>
       k \<in> set (map product_id (products s'))"
  shows "sale_refs_ok s' r"
  using assms
  by (auto simp: sale_refs_ok_def customer_ref_ok_def product_ref_ok_def split: option.splits)

lemma sale_refs_ok_same_keys:
  "customers s' = customers s \<Longrightarrow> map product_id (products s') = map product_id (products s) \<Longrightarrow>
   sale_refs_ok s' = sale_refs_ok s"
  by (rule ext) (simp add: sale_refs_ok_def customer_ref_ok_def product_ref_ok_def
      split: option.splits)

lemma sale_refs_ok_sales_update:
  "sale_refs_ok (s\<lparr>sales := xs\<rparr>) = sale_refs_ok s"
  by (rule sale_refs_ok_same_keys) simp_all

lemma post_products_keeps_refs:
  assumes "sales_refs_ok s"
  shows "sales_refs_ok (fst (post_products s b))"
proof -
  have same: "customers (fst (post_products s b)) = customers s"
    "sales (fst (post_products s b)) = sales s"
    by (simp_all add: post_products_def insert_product_def Let_def)
  have keys: "set (map product_id (products s))
      \<subseteq> set (map product_id (products (fst (post_products s b))))"
    using post_products_table [of s b] by auto
  have "sale_refs_ok (fst (post_products s b)) r" if "sale_refs_ok s r" for r
    using that
  proof (rule sale_refs_ok_mono)
    show "set (map customer_id (customers s))
        \<subseteq> set (map customer_id (customers (fst (post_products s b))))"
      by (simp add: same(1))
  qed (use keys in blast)
  with assms show ?thesis
    by (simp add: sales_refs_ok_def same(2) list_all_iff)
qed

lemma key_column_after_update:
  "map product_id (map (\<lambda>p. if P p then set_product n pr c p else p) xs) = map product_id xs"
  by (induction xs) (simp_all add: set_product_def)

lemma put_product_keeps_refs:
  assumes "sales_refs_ok s"
  shows "sales_refs_ok (fst (put_product s i b))"
proof -
  have "map product_id (products (fst (put_product s i b))) = map product_id (products s)"
    using put_product_table [of s i b]
    by (elim disjE) (simp_all only: key_column_after_update)
  moreover have "customers (fst (put_product s i b)) = customers s"
    and "sales (fst (put_product s i b)) = sales s"
    by (simp_all add: put_product_def update_product_def)
  ultimately show ?thesis
    using assms
    by (simp add: sales_refs_ok_def sale_refs_ok_same_keys [of "fst (put_product s i b)" s])
qed

lemma delete_product_keeps_refs:
  assumes "sales_refs_ok s"
  shows "sales_refs_ok (fst (delete_product_route s i))"
proof (cases "int4_ok i \<and> \<not> list_ex (\<lambda>p. product_referenced s (product_id p))
    (filter (product_is i) (products s))")
  case False
  then have "fst (delete_product_route s i) = s"
    by (auto simp: delete_product_route_def delete_product_def Let_def)
  with assms show ?thesis by simp
next
  case True
  let ?s' = "s\<lparr>products := filter (\<lambda>p. \<not> product_is i p) (products s)\<rparr>"
  have s': "fst (delete_product_route s i) = ?s'"
    using True by (simp add: delete_product_route_def delete_product_def Let_def)
  have "sale_refs_ok ?s' r" if r: "r \<in> set (sales s)" for r
  proof (rule sale_refs_ok_mono [of s r])
    show "sale_refs_ok s r"
      using assms r by (simp add: sales_refs_ok_def list_all_iff)
    show "set (map customer_id (customers s)) \<subseteq> set (map customer_id (customers ?s'))"
      by simp
    fix k
    assume k: "sale_product_id r = Some k" "k \<in> set (map product_id (products s))"
    then obtain p where p: "p \<in> set (products s)" "product_id p = k"
      by auto
    have "Some k \<in> set (map sale_product_id (sales s))"
      using k(1) r by (metis image_eqI set_map)
    then have "product_referenced s (product_id p)"
      by (simp add: product_referenced_def p(2))
    then have "\<not> product_is i p"
      using True p(1) by (auto simp: list_ex_iff)
    with p show "k \<in> set (map product_id (products ?s'))"
      by auto
  qed
  then show ?thesis
    by (simp add: s' sales_refs_ok_def list_all_iff)
qed

lemma post_sales_keeps_refs:
  assumes "sales_refs_ok s"
  shows "sales_refs_ok (fst (post_sales s b))"
proof (cases "sale_accepted s b")
  case True
  then have "post_sales s b =
      (s\<lparr>sales_sale_id_seq := sales_sale_id_seq s + 1, sales := sales s @ [new_sale s b]\<rparr>,
       Response 201 (SaleRow (new_sale s b)))"
    by (rule post_sales_accepted)
  moreover have "sale_refs_ok s (new_sale s b)"
    using True by (simp add: sale_accepted_def sale_refs_ok_def new_sale_def)
  moreover have "sale_refs_ok (s\<lparr>sales_sale_id_seq := n, sales := xs\<rparr>) = sale_refs_ok s"
    for n xs
    by (rule sale_refs_ok_same_keys) simp_all
  ultimately show ?thesis
    using assms by (simp add: sales_refs_ok_def)
next
  case False
  have "sale_refs_ok (s\<lparr>sales_sale_id_seq := n\<rparr>) = sale_refs_ok s" for n
    by (rule sale_refs_ok_same_keys) simp_all
  then show ?thesis
    using assms post_sales_refused(2) [OF False]
    by (auto simp: sales_refs_ok_def)
qed

lemma put_sale_keeps_refs:
  assumes "sales_refs_ok s"
  shows "sales_refs_ok (fst (put_sale s i b))"
proof (cases "int4_ok i \<and> sale_params_ok b \<and>
    \<not> (filter (sale_is i) (sales s) \<noteq> [] \<and>
       \<not> (customer_ref_ok s (bound (body_customer_id b)) \<and>
          product_ref_ok s (bound (body_product_id b))))")
  case False
  then have "fst (put_sale s i b) = s"
    by (auto simp: put_sale_def update_sale_def Let_def sale_params_ok_def)
  with assms show ?thesis by simp
next
  case True
  let ?f = "\<lambda>r. if sale_is i r
      then set_sale (body_customer_id b) (body_product_id b) (body_quantity b) r else r"
  have s': "fst (put_sale s i b) = s\<lparr>sales := map ?f (sales s)\<rparr>"
    using True by (auto simp: put_sale_def update_sale_def Let_def sale_params_ok_def)
  have "sale_refs_ok s (?f r)" if r: "r \<in> set (sales s)" for r
  proof (cases "sale_is i r")
    case hit: True
    with r have "filter (sale_is i) (sales s) \<noteq> []"
      by (auto simp: filter_empty_conv)
    with True have "customer_ref_ok s (bound (body_customer_id b)) \<and>
        product_ref_ok s (bound (body_product_id b))"
      by blast
    with hit show ?thesis
      by (simp add: sale_refs_ok_def set_sale_def)
  next
    case False
    then show ?thesis
      using assms r by (simp add: sales_refs_ok_def list_all_iff)
  qed
  then have "list_all (sale_refs_ok s) (map ?f (sales s))"
    unfolding list_all_iff set_map by blast
  then show ?thesis
    unfolding s' sales_refs_ok_def by (simp add: sale_refs_ok_sales_update)
qed

lemma delete_sale_keeps_refs:
  "sales_refs_ok s \<Longrightarrow> sales_refs_ok (fst (delete_sale_route s i))"
  by (simp add: delete_sale_route_def delete_sale_def sales_refs_ok_def list_all_iff
      sale_refs_ok_sales_update)

lemma handle_keeps_refs: "sales_refs_ok s \<Longrightarrow> sales_refs_ok (fst (handle s r))"
  by (cases r)
    (simp_all add: post_products_keeps_refs put_product_keeps_refs delete_product_keeps_refs
      post_sales_keeps_refs put_sale_keeps_refs delete_sale_keeps_refs
      get_products_def get_product_def get_sales_def get_sale_def
      select_products_def select_product_def select_sales_def select_sale_def)

lemma run_keeps_refs: "sales_refs_ok s \<Longrightarrow> sales_refs_ok (fst (run s rs))"
proof (induction rs arbitrary: s)
  case Nil
  then show ?case by simp
next
  case (Cons r rs)
  have "sales_refs_ok (fst (handle s r))"
    using Cons.prems by (rule handle_keeps_refs)
  then show ?case
    unfolding run_step by (rule Cons.IH)
qed

text \<open>
  Claim C6, as the code has it. \<open>DELETE /products/:product_id\<close> on a key that no product
  has changes nothing; the answer is 404 when the key is an INTEGER value and 500 when it
  is not. On a product that a sale still references, the deletion is refused by the
  foreign key: the answer is 500, never 409, and the database is as it was. When every
  sale references a stored product and a stored customer (or NULL), this still holds
  after a DELETE of a product, and after any sequence of requests.
\<close>

theorem delete_product_never_orphans_a_sale:
  "(k \<notin> set (map product_id (products s)) \<longrightarrow>
      fst (delete_product_route s (Value k)) = s \<and>
      (int4_ok (Value k) \<longrightarrow>
         delete_product_route s (Value k) =
           (s, Response 404 (ErrorMessage ''Product not found'')))) \<and>
   (\<not> int4_ok i \<longrightarrow> delete_product_route s i = (s, internal_server_error)) \<and>
   (k \<in> set (map product_id (products s)) \<and> Some k \<in> set (map sale_product_id (sales s)) \<longrightarrow>
      delete_product_route s (Value k) = (s, internal_server_error)) \<and>
   status (snd (delete_product_route s i)) \<noteq> 409 \<and>
   (sales_refs_ok s \<longrightarrow> sales_refs_ok (fst (delete_product_route s i))) \<and>
   (sales_refs_ok s \<longrightarrow> sales_refs_ok (fst (run s rs)))"
proof -
  have "status (snd (delete_product_route s i)) \<noteq> 409"
    by (simp add: delete_product_route_def delete_product_def Let_def
        internal_server_error_def)
  then show ?thesis
    using delete_product_absent [of k s] delete_product_bad_id [of i s]
      delete_product_sold [of k s] delete_product_keeps_refs [of s i] run_keeps_refs [of s rs]
    by simp
qed

theorem delete_product_never_orphans_a_sale_witness:
  "5 \<notin> set (map product_id (products shop)) \<and> int4_ok (Value 5) \<and>
   delete_product_route shop (Value 5) =
     (shop, Response 404 (ErrorMessage ''Product not found'')) \<and>
   \<not> int4_ok (Value 99999999999) \<and>
   delete_product_route shop (Value 99999999999) = (shop, internal_server_error) \<and>
   1 \<in> set (map product_id (products (fst (post_sales shop six_widgets)))) \<and>
   Some 1 \<in> set (map sale_product_id (sales (fst (post_sales shop six_widgets)))) \<and>
   delete_product_route (fst (post_sales shop six_widgets)) (Value 1) =
     (fst (post_sales shop six_widgets), internal_server_error) \<and>
   sales_refs_ok shop \<and>
   sales_refs_ok (fst (run shop [CreateSale six_widgets, DeleteProduct (Value 1)]))"
proof -
  have a: "5 \<notin> set (map product_id (products shop))" "int4_ok (Value 5)"
    "\<not> int4_ok (Value 99999999999)"
    by (simp_all add: shop_def widget_def int4_ok_def)
  have b: "1 \<in> set (map product_id (products (fst (post_sales shop six_widgets))))"
    "Some 1 \<in> set (map sale_product_id (sales (fst (post_sales shop six_widgets))))"
    by code_simp+
  have c: "sales_refs_ok shop"
    by (simp add: sales_refs_ok_def shop_def)
  show ?thesis
    using a b c delete_product_never_orphans_a_sale [of 5 shop "Value 99999999999"]
      delete_product_never_orphans_a_sale [of 1 "fst (post_sales shop six_widgets)"]
      delete_product_never_orphans_a_sale
        [of 1 shop _ "[CreateSale six_widgets, DeleteProduct (Value 1)]"]
    by blast
qed

text \<open>
  Against C6 as it is written: the DELETE of a product that a sale references is answered
  500, not Conflict, and the product stays; the DELETE of the key 99999999999, which no
  product has, is answered 500, not 404.
\<close>

theorem delete_of_sold_product_is_500_counterexample:
  "map sale_product_id (sales (fst (post_sales shop six_widgets))) = [Some 1] \<and>
   status (snd (delete_product_route (fst (post_sales shop six_widgets)) (Value 1))) = 500 \<and>
   map product_id (products (fst (delete_product_route (fst (post_sales shop six_widgets))
     (Value 1)))) = [1] \<and>
   99999999999 \<notin> set (map product_id (products shop)) \<and>
   status (snd (delete_product_route shop (Value 99999999999))) = 500"
  by code_simp

end
